theory Spec2Isabelle
  imports Complex_Main
begin

section \<open>Values\<close>

text \<open>
  A DOM element is known by its identity only. A reference that may be \<open>undefined\<close> is an
  \<open>option\<close>: the source tests such references with \<open>!ref\<close>, and an object is always truthy.
\<close>

type_synonym Element = nat

datatype error = TypeError | Thrown string

definition andThen :: "error + 'a \<Rightarrow> ('a \<Rightarrow> error + 'b) \<Rightarrow> error + 'b" where
  "andThen m f = (case m of Inl e \<Rightarrow> Inl e | Inr v \<Rightarrow> f v)"

text \<open>
  A \<open>number\<close> is a double: a finite one is the real number it stands for (the two zeros
  are one value; they are equal under every operator of the source), the others are the
  two infinities and \<open>NaN\<close>. \<open>gt\<close> is the operator \<open>>\<close> and \<open>strictNotEqual\<close> is \<open>!==\<close> on
  numbers.
\<close>

datatype number = Num real | Infinity | NegInfinity | NaN

fun gt :: "number \<Rightarrow> number \<Rightarrow> bool" where
  "gt NaN b = False"
| "gt a NaN = False"
| "gt (Num a) (Num b) = (b < a)"
| "gt a Infinity = False"
| "gt Infinity b = True"
| "gt NegInfinity b = False"
| "gt (Num a) NegInfinity = True"

definition strictNotEqual :: "number \<Rightarrow> number \<Rightarrow> bool" where
  "strictNotEqual a b = (a = NaN \<or> b = NaN \<or> a \<noteq> b)"

text \<open>
  Arithmetic on doubles rounds. \<open>toDouble\<close> takes the exact result of an operation to the
  double that the operation returns: the nearest multiple of the spacing of doubles
  around it (53 significant bits, and the fixed spacing \<open>pow2 (- 1074)\<close> below \<open>pow2 (- 1022)\<close>), a tie
  going to the even multiple, and an infinity when the rounded value reaches \<open>2 ^ 1024\<close>.
  \<open>jsAdd\<close> and \<open>jsSubtract\<close> are the operators \<open>+\<close> and \<open>-\<close> on numbers; \<open>jsHalf\<close> is the
  division by the literal 2, the only division of the source.
\<close>

definition pow2 :: "int \<Rightarrow> real" where
  "pow2 k = (if 0 \<le> k then 2 ^ nat k else 1 / 2 ^ nat (- k))"

definition roundHalfEven :: "real \<Rightarrow> int" where
  "roundHalfEven r =
    (let f = \<lfloor>r\<rfloor>; t = r - of_int f
     in if t < 1 / 2 then f else if 1 / 2 < t then f + 1 else if even f then f else f + 1)"

definition toDouble :: "real \<Rightarrow> number" where
  "toDouble v =
    (if v = 0 then Num 0
     else
       let e = max \<lfloor>log 2 \<bar>v\<bar>\<rfloor> (- 1022);
           q = pow2 (e - 52);
           r = of_int (roundHalfEven (v / q)) * q
       in if 2 ^ 1024 \<le> \<bar>r\<bar> then (if 0 < v then Infinity else NegInfinity) else Num r)"

fun jsNegate :: "number \<Rightarrow> number" where
  "jsNegate (Num a) = Num (- a)"
| "jsNegate Infinity = NegInfinity"
| "jsNegate NegInfinity = Infinity"
| "jsNegate NaN = NaN"

fun jsAdd :: "number \<Rightarrow> number \<Rightarrow> number" where
  "jsAdd NaN b = NaN"
| "jsAdd a NaN = NaN"
| "jsAdd (Num a) (Num b) = toDouble (a + b)"
| "jsAdd Infinity NegInfinity = NaN"
| "jsAdd NegInfinity Infinity = NaN"
| "jsAdd Infinity b = Infinity"
| "jsAdd a Infinity = Infinity"
| "jsAdd NegInfinity b = NegInfinity"
| "jsAdd a NegInfinity = NegInfinity"

definition jsSubtract :: "number \<Rightarrow> number \<Rightarrow> number" where
  "jsSubtract a b = jsAdd a (jsNegate b)"

fun jsHalf :: "number \<Rightarrow> number" where
  "jsHalf (Num a) = toDouble (a / 2)"
| "jsHalf a = a"

record Coords =
  x :: number
  y :: number

record Dims =
  width :: number
  height :: number

record 'o OrientationCoords =
  orientation :: 'o
  coords :: Coords

record EdgeFocusables =
  start :: "Element option"
  end' :: "Element option"

section \<open>Argument bundles of \<open>tour.ts\<close>\<close>

record TargetChangedArgs =
  root :: "Element option"
  target :: "Element option"
  targetCoords :: "Coords option"
  targetDims :: "Dims option"
  rerenderTolerance :: number

record NaiveShouldScrollArgs =
  root :: "Element option"
  tooltip :: "Element option"
  tooltipPosition :: "Coords option"
  target :: "Element option"

record ShouldScrollArgs = NaiveShouldScrollArgs +
  disableAutoScroll :: "bool option"
  allowForeignTarget :: "bool option"
  selector :: "string option"

text \<open>
  \<open>GetTooltipPositionArgs\<close> is declared in \<open>positioning.ts\<close>; \<open>tooltipDesync\<close> reads its
  fields \<open>target\<close>, \<open>root\<close> and \<open>tooltip\<close>. Whatever else the interface holds travels in
  the extension slot of the record.
\<close>

record GetTooltipPositionArgs =
  target :: "Element option"
  root :: "Element option"
  tooltip :: "Element option"

record TooltipDesyncArgs = GetTooltipPositionArgs +
  tooltipPosition :: "Coords option"

section \<open>Collaborators\<close>

text \<open>
  The functions that \<open>tour.ts\<close> and \<open>offset.ts\<close> import from \<open>./dom\<close>, \<open>./positioning\<close> and
  \<open>./viewport\<close> are parameters of the model. Each one takes what its call sites pass (a
  caller's reference may be absent, a value returned by another collaborator is present)
  and either returns or throws.
\<close>

record ('o, 'm) Env =
  dist' :: "Coords \<Rightarrow> Coords option \<Rightarrow> error + number"
  areaDiff :: "Dims \<Rightarrow> Dims option \<Rightarrow> error + number"
  fitsWithin :: "Dims \<Rightarrow> Dims \<Rightarrow> error + bool"
  getElementDims :: "Element option \<Rightarrow> error + Dims"
  getElementCoords :: "Element option \<Rightarrow> error + Coords"
  getEdgeFocusables :: "Element option \<Rightarrow> Element option \<Rightarrow> bool option \<Rightarrow> error + EdgeFocusables"
  isForeignTarget :: "Element option \<Rightarrow> string option \<Rightarrow> error + bool"
  getTargetPosition :: "Element option \<Rightarrow> Element option \<Rightarrow> error + Coords"
  getTooltipPosition :: "'m TooltipDesyncArgs_scheme \<Rightarrow> error + 'o OrientationCoords"
  isElementInView :: "Element option \<Rightarrow> Element option \<Rightarrow> Coords option \<Rightarrow> error + bool"
  getViewportDims :: "Element option \<Rightarrow> error + Dims"

text \<open>
  Modelled from the spec: \<open>constants.ts\<close> is not among the sources. The handler compares
  \<open>keyCode\<close> with \<open>TAB_KEYCODE\<close>, and the spec says that it intercepts the Tab key, whose
  key code is 9.
\<close>

definition TAB_KEYCODE :: nat where
  "TAB_KEYCODE = 9"

section \<open>The update decision\<close>

definition targetChanged :: "('o, 'm) Env \<Rightarrow> TargetChangedArgs \<Rightarrow> error + bool" where
  "targetChanged I args =
    (let root = TargetChangedArgs.root args;
         target = TargetChangedArgs.target args;
         targetCoords = TargetChangedArgs.targetCoords args;
         targetDims = TargetChangedArgs.targetDims args;
         rerenderTolerance = TargetChangedArgs.rerenderTolerance args
     in
       if target = None \<and> targetCoords = None \<and> targetDims = None then Inr False
       else if (target = None \<and> targetCoords \<noteq> None \<and> targetDims \<noteq> None)
             \<or> (target \<noteq> None \<and> targetCoords = None \<and> targetDims = None) then Inr True
       else
         andThen (getElementDims I target) (\<lambda>currentTargetSize.
         andThen (getTargetPosition I root target) (\<lambda>currentTargetPosition.
         andThen (areaDiff I currentTargetSize targetDims) (\<lambda>sizeDiff.
         andThen (dist' I currentTargetPosition targetCoords) (\<lambda>positionDiff.
           let sizeChanged = gt sizeDiff rerenderTolerance;
               positionChanged = gt positionDiff rerenderTolerance
           in Inr (sizeChanged \<or> positionChanged))))))"

definition naiveShouldScroll :: "('o, 'm) Env \<Rightarrow> 'a NaiveShouldScrollArgs_scheme \<Rightarrow> error + bool" where
  "naiveShouldScroll I args =
    (let root = NaiveShouldScrollArgs.root args;
         tooltip = NaiveShouldScrollArgs.tooltip args;
         tooltipPosition = NaiveShouldScrollArgs.tooltipPosition args;
         target = NaiveShouldScrollArgs.target args
     in
       andThen (isElementInView I root tooltip tooltipPosition) (\<lambda>tooltipInView.
         if \<not> tooltipInView then Inr True
         else
           andThen (isElementInView I root target None) (\<lambda>targetInView.
             if \<not> targetInView then
               andThen (getElementDims I target) (\<lambda>targetSize.
               andThen (getViewportDims I root) (\<lambda>viewportSize.
                 fitsWithin I targetSize viewportSize))
             else Inr False)))"

text \<open>
  A flag is truthy when it is \<open>true\<close>; a selector is truthy when it is a non-empty string.
\<close>

definition truthyFlag :: "bool option \<Rightarrow> bool" where
  "truthyFlag b = (b = Some True)"

definition truthyString :: "string option \<Rightarrow> bool" where
  "truthyString s = (s \<noteq> None \<and> s \<noteq> Some [])"

definition shouldScroll :: "('o, 'm) Env \<Rightarrow> ShouldScrollArgs \<Rightarrow> error + bool" where
  "shouldScroll I args =
    (let root = NaiveShouldScrollArgs.root args;
         tooltip = NaiveShouldScrollArgs.tooltip args;
         target = NaiveShouldScrollArgs.target args;
         disableAutoScroll = ShouldScrollArgs.disableAutoScroll args;
         allowForeignTarget = ShouldScrollArgs.allowForeignTarget args;
         targetSelector = ShouldScrollArgs.selector args
     in
       if root = None \<or> tooltip = None \<or> target = None then Inr False
       else if truthyFlag disableAutoScroll then Inr False
       else if truthyFlag allowForeignTarget \<and> truthyString targetSelector then
         andThen (isForeignTarget I root targetSelector) (\<lambda>foreign. Inr (\<not> foreign))
       else naiveShouldScroll I args)"

definition tooltipDesync :: "('o, 'm) Env \<Rightarrow> 'm TooltipDesyncArgs_scheme \<Rightarrow> error + bool" where
  "tooltipDesync I args =
    (let target = GetTooltipPositionArgs.target args;
         root = GetTooltipPositionArgs.root args;
         tooltip = GetTooltipPositionArgs.tooltip args;
         currentPosition = TooltipDesyncArgs.tooltipPosition args
     in
       if target \<noteq> None \<or> root = None \<or> tooltip = None then Inr False
       else
         andThen (getTooltipPosition I args) (\<lambda>newPosition.
         andThen (dist' I (coords newPosition) currentPosition) (\<lambda>d.
           Inr (strictNotEqual d (Num 0)))))"

section \<open>The focus trap\<close>

record KeyboardEvent =
  keyCode :: nat
  shiftKey :: bool
  target :: Element

record FocusTrapArgs =
  start :: "Element option"
  end' :: "Element option"
  beforeStart :: "Element option"
  afterEnd :: "Element option"
  lightningRod :: "Element option"

text \<open>
  What a handler does to the page: it prevents the event's default action and it moves
  the focus. A handler's run is the list of its actions, in order, and the error that
  ended it, if one did: calling \<open>focus\<close> on an absent element throws.
\<close>

datatype action = PreventDefault | Focus Element

type_synonym run = "action list \<times> error option"

definition focus :: "Element option \<Rightarrow> run" where
  "focus el = (case el of None \<Rightarrow> ([], Some TypeError) | Some e \<Rightarrow> ([Focus e], None))"

definition preventDefaultThen :: "run \<Rightarrow> run" where
  "preventDefaultThen r = (PreventDefault # fst r, snd r)"

definition getFocusTrapHandler :: "FocusTrapArgs \<Rightarrow> KeyboardEvent \<Rightarrow> run" where
  "getFocusTrapHandler args e =
    (if keyCode e = TAB_KEYCODE then
       if shiftKey e \<and> Some (KeyboardEvent.target e) = FocusTrapArgs.start args then
         preventDefaultThen
           (if beforeStart args \<noteq> None then focus (beforeStart args)
            else focus (FocusTrapArgs.end' args))
       else if \<not> shiftKey e \<and> Some (KeyboardEvent.target e) = FocusTrapArgs.end' args then
         preventDefaultThen
           (if afterEnd args \<noteq> None then focus (afterEnd args)
            else focus (FocusTrapArgs.start args))
       else if Some (KeyboardEvent.target e) = lightningRod args then
         preventDefaultThen (focus (FocusTrapArgs.start args))
       else ([], None)
     else ([], None))"

text \<open>
  The listeners of the page. A closure is an object of its own: every evaluation of a
  function expression makes a new one, and the platform compares callbacks by identity.
  A closure of the model is the number of its creation and what it runs: the focus trap
  handler with its \<open>FocusTrapArgs\<close>, the click handler of \<open>setNextOnTargetClick\<close> with its
  target and the two callbacks of the host (known by name). The state of the page is
  the table of its registrations, in order (element, event type, closure), and the
  count of the closures created so far.
\<close>

type_synonym callback = string

datatype handler =
  FocusTrapHandler FocusTrapArgs
| ClickHandler Element callback "callback option"

type_synonym closure = "nat \<times> handler"

type_synonym registration = "Element \<times> string \<times> closure"

record Dom =
  listeners :: "registration list"
  created :: nat

text \<open>
  A new closure is no object that exists: its identity is beyond every identity given
  so far and beyond every identity that the table holds.
\<close>

fun identityBound :: "registration list \<Rightarrow> nat" where
  "identityBound [] = 0"
| "identityBound ((el, ty, (i, h)) # rs) = max (Suc i) (identityBound rs)"

definition newClosure :: "handler \<Rightarrow> Dom \<Rightarrow> closure \<times> Dom" where
  "newClosure h s =
    (let i = max (created s) (identityBound (listeners s))
     in ((i, h), s\<lparr>created := Suc i\<rparr>))"

text \<open>
  \<open>addEventListener\<close> and \<open>removeEventListener\<close> are the platform's. A registration is of a
  callback when element, event type and the identity of the closure agree. Registering
  a callback that is registered already changes nothing; removing takes out the
  registration of that one callback, and removing an absent callback is a no-op.
  Called on an absent element, either one throws.
\<close>

definition registers :: "Element \<Rightarrow> string \<Rightarrow> closure \<Rightarrow> registration \<Rightarrow> bool" where
  "registers el ty c r = (fst r = el \<and> fst (snd r) = ty \<and> fst (snd (snd r)) = fst c)"

definition addEventListener :: "Element option \<Rightarrow> string \<Rightarrow> closure \<Rightarrow> Dom \<Rightarrow> error + Dom" where
  "addEventListener el ty c s =
    (case el of
       None \<Rightarrow> Inl TypeError
     | Some e \<Rightarrow>
         Inr (if list_ex (registers e ty c) (listeners s) then s
              else s\<lparr>listeners := listeners s @ [(e, ty, c)]\<rparr>))"

definition removeEventListener :: "Element option \<Rightarrow> string \<Rightarrow> closure option \<Rightarrow> Dom \<Rightarrow> error + Dom" where
  "removeEventListener el ty c s =
    (case el of
       None \<Rightarrow> Inl TypeError
     | Some e \<Rightarrow>
         (case c of
            None \<Rightarrow> Inr s
          | Some c' \<Rightarrow> Inr (s\<lparr>listeners := filter (\<lambda>r. \<not> registers e ty c' r) (listeners s)\<rparr>)))"

text \<open>
  The keydown event, delivered at one element: the keydown listeners registered on it
  run in the order of their registration.
\<close>

fun keydownListeners :: "registration list \<Rightarrow> Element \<Rightarrow> FocusTrapArgs list" where
  "keydownListeners [] el = []"
| "keydownListeners ((el', ty, (i, FocusTrapHandler args)) # rs) el =
    (if el' = el \<and> ty = ''keydown'' then args # keydownListeners rs el
     else keydownListeners rs el)"
| "keydownListeners ((el', ty, (i, ClickHandler t n v)) # rs) el = keydownListeners rs el"

definition keydown :: "Dom \<Rightarrow> Element \<Rightarrow> KeyboardEvent \<Rightarrow> run list" where
  "keydown s el e = map (\<lambda>args. getFocusTrapHandler args e) (keydownListeners (listeners s) el)"

text \<open>The closure that \<open>setFocusTrap\<close> returns, over the variables it captures.\<close>

definition setFocusTrapCleanup ::
  "Element option \<Rightarrow> closure option \<Rightarrow> Element option \<Rightarrow> closure \<Rightarrow> Dom \<Rightarrow> error + Dom" where
  "setFocusTrapCleanup =
    (\<lambda>target targetTrapHandler tooltipContainer tooltipTrapHandler s.
    andThen
      (if target \<noteq> None then removeEventListener target ''keydown'' targetTrapHandler s
       else Inr s)
      (\<lambda>s'. removeEventListener tooltipContainer ''keydown'' (Some tooltipTrapHandler) s'))"

definition setFocusTrap ::
  "('o, 'm) Env \<Rightarrow> Element option \<Rightarrow> Element option \<Rightarrow> bool option \<Rightarrow> Dom
    \<Rightarrow> error + ((Dom \<Rightarrow> error + Dom) option \<times> Dom)" where
  "setFocusTrap I =
    (\<lambda>tooltipContainer target disableMaskInteraction s.
     if tooltipContainer = None then Inr (None, s)
     else
       andThen (getEdgeFocusables I tooltipContainer tooltipContainer None) (\<lambda>tooltipEdges.
       andThen (getEdgeFocusables I None target (Some True)) (\<lambda>targetEdges.
         let tooltipFirst = EdgeFocusables.start tooltipEdges;
             tooltipLast = EdgeFocusables.end' tooltipEdges;
             targetFirst = EdgeFocusables.start targetEdges;
             targetLast = EdgeFocusables.end' targetEdges;
             chained = (target \<noteq> None \<and> \<not> truthyFlag disableMaskInteraction
                        \<and> targetFirst \<noteq> None \<and> targetLast \<noteq> None);
             tooltipAfterEnd = (if chained then targetFirst else None);
             tooltipBeforeStart = (if chained then targetLast else None)
         in
           andThen
             (if chained then
                (let (targetTrapHandler, s1) =
                       newClosure (FocusTrapHandler \<lparr>start = targetFirst, end' = targetLast,
                         beforeStart = tooltipLast, afterEnd = tooltipFirst,
                         lightningRod = None\<rparr>) s
                 in andThen (addEventListener target ''keydown'' targetTrapHandler s1)
                      (\<lambda>s2. Inr (Some targetTrapHandler, s2)))
              else Inr (None, s))
             (\<lambda>(targetTrapHandler, s2).
                let (tooltipTrapHandler, s3) =
                      newClosure (FocusTrapHandler \<lparr>start = tooltipFirst, end' = tooltipLast,
                        beforeStart = tooltipBeforeStart, afterEnd = tooltipAfterEnd,
                        lightningRod = tooltipContainer\<rparr>) s2
                in andThen (addEventListener tooltipContainer ''keydown'' tooltipTrapHandler s3)
                     (\<lambda>s4. Inr (Some (setFocusTrapCleanup target targetTrapHandler
                                        tooltipContainer tooltipTrapHandler), s4))))))"

text \<open>
  \<open>setNextOnTargetClick\<close> registers its click handler and returns the closure that
  removes it. What the handler does on a click waits for the host's validator and is
  not part of the model.
\<close>

definition setNextOnTargetClick ::
  "Element option \<Rightarrow> callback \<Rightarrow> callback option \<Rightarrow> Dom
    \<Rightarrow> error + ((Dom \<Rightarrow> error + Dom) option \<times> Dom)" where
  "setNextOnTargetClick =
    (\<lambda>target next validateNext s.
     case target of
       None \<Rightarrow> Inr (None, s)
     | Some t \<Rightarrow>
         let (clickHandler, s1) = newClosure (ClickHandler t next validateNext) s in
         andThen (addEventListener target ''click'' clickHandler s1) (\<lambda>s2.
           Inr (Some (removeEventListener target ''click'' (Some clickHandler)), s2)))"

section \<open>Offsets\<close>

text \<open>
  What \<open>offset.ts\<close> reads from the document: its body, its root element and the scroll
  position of an element. \<open>isSameNode\<close> is the platform's: no node is the absent one.
\<close>

record Document =
  body :: Element
  documentElement :: Element
  scrollLeft :: "Element \<Rightarrow> number"
  scrollTop :: "Element \<Rightarrow> number"

definition isSameNode :: "Element \<Rightarrow> Element option \<Rightarrow> bool" where
  "isSameNode n other = (other = Some n)"

definition getCurrentScrollOffset :: "Document \<Rightarrow> Element option \<Rightarrow> error + Coords" where
  "getCurrentScrollOffset doc =
    (\<lambda>root.
     if isSameNode (body doc) root then
       Inr \<lparr>x = scrollLeft doc (documentElement doc), y = scrollTop doc (documentElement doc)\<rparr>
     else
       (case root of
          None \<Rightarrow> Inl TypeError
        | Some r \<Rightarrow> Inr \<lparr>x = scrollLeft doc r, y = scrollTop doc r\<rparr>))"

definition addScrollOffset :: "Document \<Rightarrow> Element option \<Rightarrow> Coords option \<Rightarrow> error + Coords" where
  "addScrollOffset doc =
    (\<lambda>root coords.
    andThen (getCurrentScrollOffset doc root) (\<lambda>curOffset.
      case coords of
        None \<Rightarrow> Inl TypeError
      | Some c \<Rightarrow> Inr \<lparr>x = jsAdd (x c) (x curOffset), y = jsAdd (y c) (y curOffset)\<rparr>))"

text \<open>The result \<open>None\<close> is the \<open>undefined\<close> of the bare \<open>return\<close>.\<close>

definition addAppropriateOffset ::
  "('o, 'm) Env \<Rightarrow> Document \<Rightarrow> Element option \<Rightarrow> Coords option \<Rightarrow> error + Coords option" where
  "addAppropriateOffset I doc =
    (\<lambda>root coords.
     if coords = None \<or> root = None then Inr None
     else if \<not> isSameNode (body doc) root then
       andThen (getElementCoords I root) (\<lambda>rootCoords.
       andThen (addScrollOffset doc root
                  (map_option (\<lambda>c. \<lparr>x = jsSubtract (x c) (x rootCoords),
                                      y = jsSubtract (y c) (y rootCoords)\<rparr>) coords))
               (\<lambda>r. Inr (Some r)))
     else andThen (addScrollOffset doc root coords) (\<lambda>r. Inr (Some r)))"

definition applyCenterOffset :: "Coords \<Rightarrow> Dims \<Rightarrow> Dims \<Rightarrow> Coords" where
  "applyCenterOffset aCoords aDims b =
    \<lparr>x = jsSubtract (jsAdd (x aCoords) (jsHalf (width aDims))) (jsHalf (width b)),
     y = jsSubtract (jsAdd (y aCoords) (jsHalf (height aDims))) (jsHalf (height b))\<rparr>"

section \<open>A page to run the model on\<close>

text \<open>
  A small page on which the theorems below are instantiated: the body is element 0, the
  tooltip container is element 1 with the focusable elements 2 and 3, the target is
  element 4 with the focusable elements 5 and 6. Its collaborators measure as the spec
  describes them: the distance of two points, the difference of two areas, a box that
  fits within another (of finite values; no number otherwise); every element is 100 by
  40 at (10, 20), in an 800 by 600 viewport, and a collaborator that is handed an absent
  value throws. A subtree with no focusable element (any other element, such as the
  bare container 8) has the default element as its two edges.
\<close>

definition pageDist :: "Coords \<Rightarrow> Coords \<Rightarrow> number" where
  "pageDist a b =
    (case (x a, y a, x b, y b) of
       (Num ax, Num ay, Num bx, Num by) \<Rightarrow> Num (sqrt ((ax - bx)\<^sup>2 + (ay - by)\<^sup>2))
     | _ \<Rightarrow> NaN)"

definition pageAreaDiff :: "Dims \<Rightarrow> Dims \<Rightarrow> number" where
  "pageAreaDiff a b =
    (case (height a, width a, height b, width b) of
       (Num ah, Num aw, Num bh, Num bw) \<Rightarrow> Num \<bar>ah * aw - bh * bw\<bar>
     | _ \<Rightarrow> NaN)"

definition page :: "(string, unit) Env" where
  "page =
    \<lparr>dist' = (\<lambda>a b. case b of None \<Rightarrow> Inl TypeError | Some b' \<Rightarrow> Inr (pageDist a b')),
     areaDiff = (\<lambda>a b. case b of None \<Rightarrow> Inl TypeError | Some b' \<Rightarrow> Inr (pageAreaDiff a b')),
     fitsWithin = (\<lambda>a b. Inr (\<not> gt (width a) (width b) \<and> \<not> gt (height a) (height b))),
     getElementDims = (\<lambda>el. case el of None \<Rightarrow> Inl TypeError
        | Some e \<Rightarrow> Inr \<lparr>width = Num 100, height = Num 40\<rparr>),
     getElementCoords = (\<lambda>el. case el of None \<Rightarrow> Inl TypeError
        | Some e \<Rightarrow> Inr \<lparr>x = Num 10, y = Num 20\<rparr>),
     getEdgeFocusables = (\<lambda>d c s.
        if c = Some 1 then Inr \<lparr>EdgeFocusables.start = Some 2, EdgeFocusables.end' = Some 3\<rparr>
        else if c = Some 4 then Inr \<lparr>EdgeFocusables.start = Some 5, EdgeFocusables.end' = Some 6\<rparr>
        else Inr \<lparr>EdgeFocusables.start = d, EdgeFocusables.end' = d\<rparr>),
     isForeignTarget = (\<lambda>r s. Inr False),
     getTargetPosition = (\<lambda>r t. case t of None \<Rightarrow> Inl TypeError
        | Some e \<Rightarrow> Inr \<lparr>x = Num 10, y = Num 20\<rparr>),
     getTooltipPosition = (\<lambda>a. Inr \<lparr>orientation = ''center'',
        coords = \<lparr>x = Num 350, y = Num 280\<rparr>\<rparr>),
     isElementInView = (\<lambda>r el p. Inr True),
     getViewportDims = (\<lambda>r. Inr \<lparr>width = Num 800, height = Num 600\<rparr>)\<rparr>"

text \<open>The same page, read while every collaborator throws: nothing can be measured.\<close>

definition detached :: "(string, unit) Env" where
  "detached =
    \<lparr>dist' = (\<lambda>a b. Inl (Thrown ''dist'')),
     areaDiff = (\<lambda>a b. Inl (Thrown ''areaDiff'')),
     fitsWithin = (\<lambda>a b. Inl (Thrown ''fitsWithin'')),
     getElementDims = (\<lambda>el. Inl (Thrown ''getElementDims'')),
     getElementCoords = (\<lambda>el. Inl (Thrown ''getElementCoords'')),
     getEdgeFocusables = (\<lambda>d c s. Inl (Thrown ''getEdgeFocusables'')),
     isForeignTarget = (\<lambda>r s. Inl (Thrown ''isForeignTarget'')),
     getTargetPosition = (\<lambda>r t. Inl (Thrown ''getTargetPosition'')),
     getTooltipPosition = (\<lambda>a. Inl (Thrown ''getTooltipPosition'')),
     isElementInView = (\<lambda>r el p. Inl (Thrown ''isElementInView'')),
     getViewportDims = (\<lambda>r. Inl (Thrown ''getViewportDims''))\<rparr>"

text \<open>Its document: the body is element 0, the root element 7 is scrolled down by 120.\<close>

definition pageDocument :: Document where
  "pageDocument =
    \<lparr>body = 0, documentElement = 7, scrollLeft = (\<lambda>el. Num 0),
     scrollTop = (\<lambda>el. if el = 7 then Num 120 else Num 0)\<rparr>"

text \<open>Its state at the start: nothing is registered, no closure was created.\<close>

definition pageStart :: Dom where
  "pageStart = \<lparr>listeners = [], created = 0\<rparr>"

section \<open>Facts about the model\<close>

text \<open>Against the tolerance \<open>Infinity\<close> no measure is greater.\<close>

lemma gt_Infinity [simp]: "gt v Infinity = False"
  by (cases v) simp_all

subsection \<open>Rounding\<close>

lemma pow2_powr: "pow2 k = 2 powr (of_int k)"
  by (simp add: pow2_def powr_int)

lemma pow2_pos [simp]: "0 < pow2 k"
  by (simp add: pow2_powr)

lemma pow2_nonzero [simp]: "pow2 k \<noteq> 0"
  using pow2_pos [of k] by linarith

lemma pow2_add: "pow2 (j + k) = pow2 j * pow2 k"
  by (simp add: pow2_powr powr_add)

lemma pow2_succ: "pow2 (k + 1) = 2 * pow2 k"
  using pow2_add [of k 1] by (simp add: pow2_def)

lemma pow2_shift: "pow2 (numeral n + k) = 2 ^ numeral n * pow2 k"
  using pow2_add [of "numeral n" k] by (simp add: pow2_def)

lemma pow2_nat: "0 \<le> k \<Longrightarrow> pow2 k = 2 ^ nat k"
  by (simp add: pow2_def)

lemma pow2_less_iff [simp]: "pow2 j < pow2 k \<longleftrightarrow> j < k"
  by (simp add: pow2_powr)

lemma pow2_le_iff [simp]: "pow2 j \<le> pow2 k \<longleftrightarrow> j \<le> k"
  by (simp add: pow2_powr)

lemma roundHalfEven_int [simp]: "roundHalfEven (of_int n) = n"
  by (simp add: roundHalfEven_def)

lemma roundHalfEven_near: "\<bar>of_int (roundHalfEven t) - t\<bar> \<le> 1 / 2"
  unfolding roundHalfEven_def Let_def by (auto simp: abs_if) linarith+

text \<open>The exponent of a value is that of the binade it lies in.\<close>

lemma exponent_binade:
  assumes "pow2 e \<le> \<bar>v\<bar>" and "\<bar>v\<bar> < 2 * pow2 e"
  shows "\<lfloor>log 2 \<bar>v\<bar>\<rfloor> = e"
proof -
  have "0 < \<bar>v\<bar>" using assms(1) pow2_pos [of e] by linarith
  moreover have "2 * pow2 e = 2 powr (of_int (e + 1))"
    by (simp add: pow2_powr powr_add)
  ultimately show ?thesis
    using assms by (simp add: floor_log_eq_powr_iff pow2_powr)
qed

lemma exponent_bounds:
  assumes "v \<noteq> 0"
  shows "pow2 \<lfloor>log 2 \<bar>v\<bar>\<rfloor> \<le> \<bar>v\<bar>" and "\<bar>v\<bar> < 2 * pow2 \<lfloor>log 2 \<bar>v\<bar>\<rfloor>"
proof -
  have "0 < \<bar>v\<bar>" using assms by simp
  then have "2 powr (of_int \<lfloor>log 2 \<bar>v\<bar>\<rfloor>) \<le> \<bar>v\<bar>
      \<and> \<bar>v\<bar> < 2 powr (of_int (\<lfloor>log 2 \<bar>v\<bar>\<rfloor> + 1))"
    using floor_log_eq_powr_iff [of "\<bar>v\<bar>" 2 "\<lfloor>log 2 \<bar>v\<bar>\<rfloor>"] by simp
  then show "pow2 \<lfloor>log 2 \<bar>v\<bar>\<rfloor> \<le> \<bar>v\<bar>" and "\<bar>v\<bar> < 2 * pow2 \<lfloor>log 2 \<bar>v\<bar>\<rfloor>"
    by (simp_all add: pow2_powr powr_add)
qed

text \<open>Rounding, once the binade of the value is known: this evaluates \<open>toDouble\<close>.\<close>

lemma toDouble_binade:
  assumes "pow2 e \<le> \<bar>v\<bar>" and "\<bar>v\<bar> < 2 * pow2 e" and "- 1022 \<le> e"
  shows "toDouble v =
    (let r = of_int (roundHalfEven (v / pow2 (e - 52))) * pow2 (e - 52)
     in if 2 ^ 1024 \<le> \<bar>r\<bar> then (if 0 < v then Infinity else NegInfinity) else Num r)"
proof -
  have "v \<noteq> 0"
  proof
    assume "v = 0"
    with assms(1) have "pow2 e \<le> 0" by simp
    with pow2_pos [of e] show False by linarith
  qed
  moreover have "max \<lfloor>log 2 \<bar>v\<bar>\<rfloor> (- 1022) = e"
    using exponent_binade [OF assms(1,2)] assms(3) by simp
  ultimately show ?thesis by (simp add: toDouble_def Let_def)
qed

text \<open>A value with at most 53 significant bits, in range, is a double: it is not rounded.\<close>

lemma toDouble_exact:
  assumes v: "v = of_int m * pow2 k" and m: "\<bar>m\<bar> < 2 ^ 53" and k: "- 1074 \<le> k"
    and fin: "\<bar>v\<bar> < 2 ^ 1024"
  shows "toDouble v = Num v"
proof (cases "v = 0")
  case True
  then show ?thesis by (simp add: toDouble_def)
next
  case False
  define e0 where "e0 = \<lfloor>log 2 \<bar>v\<bar>\<rfloor>"
  define e where "e = max e0 (- 1022)"
  have lo: "pow2 e0 \<le> \<bar>v\<bar>" and hi: "\<bar>v\<bar> < 2 * pow2 e0"
    using exponent_bounds [OF False] by (simp_all add: e0_def)
  from False v have "m \<noteq> 0" by auto
  then have "1 \<le> \<bar>real_of_int m\<bar>" by simp
  then have "1 * pow2 k \<le> \<bar>real_of_int m\<bar> * pow2 k"
    by (intro mult_right_mono) (simp_all add: less_imp_le)
  then have "pow2 k \<le> \<bar>v\<bar>"
    unfolding v abs_mult by (simp add: abs_of_pos)
  with hi have "pow2 k < pow2 (e0 + 1)" by (simp add: pow2_succ)
  then have ke: "k \<le> e0" by simp
  from m have "real_of_int \<bar>m\<bar> < real_of_int (2 ^ 53)" by (simp only: of_int_less_iff)
  then have "\<bar>real_of_int m\<bar> < 2 ^ 53" by simp
  then have "\<bar>real_of_int m\<bar> * pow2 k < 2 ^ 53 * pow2 k"
    by (intro mult_strict_right_mono) simp_all
  then have "\<bar>v\<bar> < 2 ^ 53 * pow2 k"
    unfolding v abs_mult by (simp add: abs_of_pos)
  with lo have "pow2 e0 < pow2 (53 + k)" by (simp add: pow2_shift)
  then have "e0 < 53 + k" by simp
  with k have le: "e - 52 \<le> k" by (simp add: e_def)
  define d where "d = nat (k - (e - 52))"
  have "pow2 k = pow2 (e - 52) * 2 ^ d"
    using le pow2_add [of "e - 52" "k - (e - 52)"] by (simp add: d_def pow2_nat)
  then have q: "v / pow2 (e - 52) = of_int (m * 2 ^ d)"
    unfolding v using pow2_pos [of "e - 52"] by simp
  have "of_int (roundHalfEven (v / pow2 (e - 52))) * pow2 (e - 52) = v"
    unfolding q roundHalfEven_int using q pow2_pos [of "e - 52"]
    by (metis nonzero_eq_divide_eq less_irrefl)
  with False fin show ?thesis
    by (simp add: toDouble_def Let_def e_def e0_def)
qed

text \<open>What \<open>toDouble\<close> returns is a double: rounding it again changes nothing.\<close>

lemma toDouble_idem:
  assumes "toDouble v = Num s"
  shows "toDouble s = Num s"
proof (cases "v = 0")
  case True
  with assms show ?thesis by (auto simp: toDouble_def)
next
  case False
  define e0 where "e0 = \<lfloor>log 2 \<bar>v\<bar>\<rfloor>"
  define e where "e = max e0 (- 1022)"
  define n where "n = roundHalfEven (v / pow2 (e - 52))"
  have hi: "\<bar>v\<bar> < 2 * pow2 e0"
    using exponent_bounds [OF False] by (simp_all add: e0_def)
  from assms False have s: "s = of_int n * pow2 (e - 52)" and fin: "\<bar>s\<bar> < 2 ^ 1024"
    by (auto simp: toDouble_def Let_def e_def e0_def n_def split: if_splits)
  have "pow2 e0 \<le> pow2 e" by (simp add: e_def)
  with hi have "\<bar>v\<bar> < 2 * pow2 e" by linarith
  also have "2 * pow2 e = 2 ^ 53 * pow2 (e - 52)"
    using pow2_shift [of "num.Bit0 (num.Bit0 (num.Bit1 (num.Bit0 (num.Bit1 num.One))))" "e - 52"]
    by simp
  finally have "\<bar>v\<bar> / pow2 (e - 52) < 2 ^ 53"
    by (simp add: pos_divide_less_eq)
  then have "\<bar>v / pow2 (e - 52)\<bar> < 2 ^ 53"
    by (simp add: abs_of_pos)
  with roundHalfEven_near [of "v / pow2 (e - 52)"] have "\<bar>real_of_int n\<bar> < 2 ^ 53 + 1"
    unfolding n_def by linarith
  then have "real_of_int \<bar>n\<bar> < real_of_int (2 ^ 53 + 1)" by simp
  then have "\<bar>n\<bar> < 2 ^ 53 + 1" by (simp only: of_int_less_iff)
  then have n: "\<bar>n\<bar> \<le> 2 ^ 53" by simp
  have e: "- 1074 \<le> e - 52" by (simp add: e_def)
  show ?thesis
  proof (cases "\<bar>n\<bar> = 2 ^ 53")
    case True
    then obtain h where h: "n = 2 * h" "\<bar>h\<bar> = 2 ^ 52"
      by (cases "0 \<le> n") (auto simp: abs_if intro: that [of "2 ^ 52"] that [of "- (2 ^ 52)"])
    have "s = of_int h * pow2 (e - 52 + 1)"
      unfolding s h pow2_succ by simp
    moreover from h have "\<bar>h\<bar> < 2 ^ 53" by simp
    ultimately show ?thesis using toDouble_exact [of s h "e - 52 + 1"] e fin by simp
  next
    case False
    with n have "\<bar>n\<bar> < 2 ^ 53" by simp
    then show ?thesis using toDouble_exact [OF s _ e fin] by simp
  qed
qed

lemma jsAdd_idem:
  assumes "jsAdd u w = Num s"
  shows "toDouble s = Num s"
  using assms by (cases u; cases w) (auto intro: toDouble_idem)

lemma toDouble_half_int:
  assumes "\<bar>m\<bar> < 2 ^ 53"
  shows "toDouble (of_int m / 2) = Num (of_int m / 2)"
proof -
  from assms have "real_of_int \<bar>m\<bar> < real_of_int (2 ^ 53)" by (simp only: of_int_less_iff)
  then have "\<bar>real_of_int m\<bar> < 2 ^ 53" by simp
  then have "\<bar>real_of_int m / 2\<bar> < 2 ^ 1024" by simp
  moreover have "real_of_int m / 2 = of_int m * pow2 (- 1)" by (simp add: pow2_def)
  ultimately show ?thesis using toDouble_exact [of "of_int m / 2" m "- 1"] assms by simp
qed

lemma half_int_sum:
  assumes "\<bar>m\<bar> < 2 ^ 53" and "v = of_int m / 2"
  shows "toDouble v = Num v"
  unfolding assms(2) by (rule toDouble_half_int [OF assms(1)])

text \<open>
  The centre is kept when the subtraction is exact, and so for whole numbers of
  moderate size.
\<close>

lemma centre_exact:
  assumes "jsHalf w = Num hw" and "jsHalf v = Num hv"
    and "jsAdd p (Num hw) = Num s" and "toDouble (s - hv) = Num (s - hv)"
  shows "jsAdd (jsSubtract (jsAdd p (jsHalf w)) (jsHalf v)) (jsHalf v) = jsAdd p (jsHalf w)"
proof -
  from assms(3) have "toDouble s = Num s" by (rule jsAdd_idem)
  with assms show ?thesis by (simp add: jsSubtract_def)
qed

lemma centre_int:
  assumes "\<bar>i\<bar> \<le> 2 ^ 50" and "\<bar>j\<bar> \<le> 2 ^ 50" and "\<bar>k\<bar> \<le> 2 ^ 50"
  shows "jsAdd (jsSubtract (jsAdd (Num (of_int i)) (jsHalf (Num (of_int j))))
           (jsHalf (Num (of_int k)))) (jsHalf (Num (of_int k))) = Num (of_int i + of_int j / 2)"
    and "jsAdd (Num (of_int i)) (jsHalf (Num (of_int j))) = Num (of_int i + of_int j / 2)"
proof -
  have j: "jsHalf (Num (of_int j)) = Num (of_int j / 2)"
    using assms(2) by (simp add: half_int_sum [of j])
  have k: "jsHalf (Num (of_int k)) = Num (of_int k / 2)"
    using assms(3) by (simp add: half_int_sum [of k])
  have "\<bar>2 * i + j\<bar> < 2 ^ 53" using assms by simp
  moreover have "real_of_int i + of_int j / 2 = of_int (2 * i + j) / 2" by simp
  ultimately have s: "toDouble (of_int i + of_int j / 2) = Num (of_int i + of_int j / 2)"
    by (rule half_int_sum)
  have "\<bar>2 * i + j - k\<bar> < 2 ^ 53" using assms by simp
  moreover have "real_of_int i + of_int j / 2 - of_int k / 2 = of_int (2 * i + j - k) / 2"
    by (simp add: diff_divide_distrib)
  ultimately have d: "toDouble (of_int i + of_int j / 2 - of_int k / 2)
      = Num (of_int i + of_int j / 2 - of_int k / 2)"
    by (rule half_int_sum)
  show "jsAdd (Num (of_int i)) (jsHalf (Num (of_int j))) = Num (of_int i + of_int j / 2)"
    by (simp only: j jsAdd.simps s)
  show "jsAdd (jsSubtract (jsAdd (Num (of_int i)) (jsHalf (Num (of_int j))))
           (jsHalf (Num (of_int k)))) (jsHalf (Num (of_int k))) = Num (of_int i + of_int j / 2)"
    using s d by (simp only: j k jsAdd.simps jsSubtract_def jsNegate.simps) simp
qed

text \<open>The double that the literal \<open>0.1\<close> denotes.\<close>

lemma double_tenth: "toDouble (1 / 10) = Num (3602879701896397 / 2 ^ 55)"
  by (subst toDouble_binade [of "- 4"]) (simp_all add: pow2_def roundHalfEven_def Let_def)

subsection \<open>Closures, listeners and handlers\<close>

lemma andThen_simps [simp]:
  "andThen (Inl e) f = Inl e"
  "andThen (Inr v) f = f v"
  by (simp_all add: andThen_def)

text \<open>Every identity in a table lies below its bound, so a new closure is registered nowhere.\<close>

lemma identityBound_above:
  "(el, ty, (i, h)) \<in> set rs \<Longrightarrow> i < identityBound rs"
  by (induction rs rule: identityBound.induct) auto

lemma identityBound_append [simp]:
  "identityBound (rs @ [(el, ty, (i, h))]) = max (Suc i) (identityBound rs)"
  by (induction rs rule: identityBound.induct) auto

lemma unregistered_new:
  assumes "identityBound rs \<le> i"
  shows "\<not> registers el ty (i, h) r \<or> r \<notin> set rs"
proof -
  obtain el' ty' j g where r: "r = (el', ty', (j, g))" by (cases r) auto
  show ?thesis
    using identityBound_above [of el' ty' j g rs] assms
    by (auto simp: registers_def r)
qed

lemma addEventListener_new:
  assumes "identityBound (listeners s) \<le> i"
  shows "addEventListener (Some el) ty (i, h) s
    = Inr (s\<lparr>listeners := listeners s @ [(el, ty, (i, h))]\<rparr>)"
  using unregistered_new [OF assms, of el ty h]
  by (auto simp: addEventListener_def list_ex_iff)

lemma removeEventListener_Some:
  "removeEventListener (Some el) ty (Some c) s
    = Inr (s\<lparr>listeners := filter (\<lambda>r. \<not> registers el ty c r) (listeners s)\<rparr>)"
  by (simp add: removeEventListener_def)

lemma removeEventListener_None:
  "removeEventListener (Some el) ty None s = Inr s"
  by (simp add: removeEventListener_def)

lemma set_keydownListeners:
  "set (keydownListeners rs el) = {args. \<exists>i. (el, ''keydown'', (i, FocusTrapHandler args)) \<in> set rs}"
  by (induction rs el rule: keydownListeners.induct) auto

lemma set_keydown:
  "set (keydown s el e)
     = (\<lambda>args. getFocusTrapHandler args e)
         ` {args. \<exists>i. (el, ''keydown'', (i, FocusTrapHandler args)) \<in> set (listeners s)}"
  by (simp add: keydown_def set_keydownListeners)

lemma handler_start_back:
  "FocusTrapArgs.start args = Some el \<Longrightarrow> beforeStart args = Some b \<Longrightarrow>
   getFocusTrapHandler args \<lparr>keyCode = TAB_KEYCODE, shiftKey = True, target = el\<rparr>
     = ([PreventDefault, Focus b], None)"
  by (simp add: getFocusTrapHandler_def preventDefaultThen_def focus_def)

lemma handler_start_wrap:
  "FocusTrapArgs.start args = Some el \<Longrightarrow> beforeStart args = None \<Longrightarrow> FocusTrapArgs.end' args = Some b \<Longrightarrow>
   getFocusTrapHandler args \<lparr>keyCode = TAB_KEYCODE, shiftKey = True, target = el\<rparr>
     = ([PreventDefault, Focus b], None)"
  by (simp add: getFocusTrapHandler_def preventDefaultThen_def focus_def)

lemma handler_end_forward:
  "FocusTrapArgs.end' args = Some el \<Longrightarrow> afterEnd args = Some b \<Longrightarrow>
   getFocusTrapHandler args \<lparr>keyCode = TAB_KEYCODE, shiftKey = False, target = el\<rparr>
     = ([PreventDefault, Focus b], None)"
  by (simp add: getFocusTrapHandler_def preventDefaultThen_def focus_def)

lemma handler_end_wrap:
  "FocusTrapArgs.end' args = Some el \<Longrightarrow> afterEnd args = None \<Longrightarrow> FocusTrapArgs.start args = Some b \<Longrightarrow>
   getFocusTrapHandler args \<lparr>keyCode = TAB_KEYCODE, shiftKey = False, target = el\<rparr>
     = ([PreventDefault, Focus b], None)"
  by (simp add: getFocusTrapHandler_def preventDefaultThen_def focus_def)

lemma handler_rod:
  "lightningRod args = Some el \<Longrightarrow> FocusTrapArgs.start args = Some b \<Longrightarrow>
   \<not> (s \<and> FocusTrapArgs.start args = Some el) \<Longrightarrow> \<not> (\<not> s \<and> FocusTrapArgs.end' args = Some el) \<Longrightarrow>
   getFocusTrapHandler args \<lparr>keyCode = TAB_KEYCODE, shiftKey = s, target = el\<rparr>
     = ([PreventDefault, Focus b], None)"
  by (auto simp add: getFocusTrapHandler_def preventDefaultThen_def focus_def)

lemma handler_idle:
  "keyCode e \<noteq> TAB_KEYCODE
    \<or> (Some (KeyboardEvent.target e) \<noteq> FocusTrapArgs.start args
       \<and> Some (KeyboardEvent.target e) \<noteq> FocusTrapArgs.end' args
       \<and> Some (KeyboardEvent.target e) \<noteq> lightningRod args)
   \<Longrightarrow> getFocusTrapHandler args e = ([], None)"
  by (auto simp add: getFocusTrapHandler_def)

text \<open>
  What \<open>setFocusTrap\<close> registers and returns, when the target's region is chained to the
  tooltip's and when it is not. The closures it makes are new: \<open>i\<close> is beyond the count
  of the page and beyond its table.
\<close>

lemma setFocusTrap_chained:
  assumes "getEdgeFocusables I (Some tc) (Some tc) None = Inr te"
    and "getEdgeFocusables I None (Some t) (Some True) = Inr ge"
    and "\<not> truthyFlag dmi"
    and "EdgeFocusables.start ge \<noteq> None" and "EdgeFocusables.end' ge \<noteq> None"
    and "tgA = \<lparr>start = EdgeFocusables.start ge, end' = EdgeFocusables.end' ge,
           beforeStart = EdgeFocusables.end' te, afterEnd = EdgeFocusables.start te,
           lightningRod = None\<rparr>"
    and "ttA = \<lparr>start = EdgeFocusables.start te, end' = EdgeFocusables.end' te,
           beforeStart = EdgeFocusables.end' ge, afterEnd = EdgeFocusables.start ge,
           lightningRod = Some tc\<rparr>"
    and "i = max (created s) (identityBound (listeners s))"
  shows "setFocusTrap I (Some tc) (Some t) dmi s
     = Inr (Some (setFocusTrapCleanup (Some t) (Some (i, FocusTrapHandler tgA)) (Some tc)
                    (Suc i, FocusTrapHandler ttA)),
            \<lparr>listeners = listeners s @ [(t, ''keydown'', (i, FocusTrapHandler tgA)),
                                        (tc, ''keydown'', (Suc i, FocusTrapHandler ttA))],
             created = Suc (Suc i)\<rparr>)"
proof (cases s)
  case (fields rs n)
  have 3: "max (Suc (max n (identityBound rs))) (max (Suc (max n (identityBound rs))) (identityBound rs))
      = Suc (max n (identityBound rs))"
    by simp
  show ?thesis
    using assms(1-5) 3
    unfolding assms(6,7,8) fields
    by (simp add: setFocusTrap_def Let_def newClosure_def addEventListener_new)
qed

lemma setFocusTrap_unchained:
  assumes "getEdgeFocusables I (Some tc) (Some tc) None = Inr te"
    and "getEdgeFocusables I None tg (Some True) = Inr ge"
    and "tg = None \<or> truthyFlag dmi \<or> EdgeFocusables.start ge = None \<or> EdgeFocusables.end' ge = None"
    and "ttA = \<lparr>start = EdgeFocusables.start te, end' = EdgeFocusables.end' te,
           beforeStart = None, afterEnd = None, lightningRod = Some tc\<rparr>"
    and "i = max (created s) (identityBound (listeners s))"
  shows "setFocusTrap I (Some tc) tg dmi s
     = Inr (Some (setFocusTrapCleanup tg None (Some tc) (i, FocusTrapHandler ttA)),
            \<lparr>listeners = listeners s @ [(tc, ''keydown'', (i, FocusTrapHandler ttA))],
             created = Suc i\<rparr>)"
proof (cases s)
  case (fields rs n)
  show ?thesis
    using assms(1-3)
    unfolding assms(4,5) fields
    by (auto simp add: setFocusTrap_def Let_def newClosure_def addEventListener_new)
qed

lemma cleanup_chained:
  "setFocusTrapCleanup (Some t) (Some c1) (Some tc) c2 s0
     = Inr (s0\<lparr>listeners := [r \<leftarrow> listeners s0.
                \<not> registers t ''keydown'' c1 r \<and> \<not> registers tc ''keydown'' c2 r]\<rparr>)"
  by (simp add: setFocusTrapCleanup_def removeEventListener_Some conj_commute)

lemma cleanup_unchained:
  "setFocusTrapCleanup tg None (Some tc) c2 s0
     = Inr (s0\<lparr>listeners := [r \<leftarrow> listeners s0. \<not> registers tc ''keydown'' c2 r]\<rparr>)"
  by (cases tg) (simp_all add: setFocusTrapCleanup_def removeEventListener_Some removeEventListener_None)

lemma filter_old:
  assumes "identityBound rs \<le> i"
  shows "[r \<leftarrow> rs. \<not> registers el ty (i, h) r] = rs"
  using unregistered_new [OF assms, of el ty h] by (simp add: filter_id_conv) blast

lemma filter_old2:
  assumes "identityBound rs \<le> i" and "identityBound rs \<le> j"
  shows "[r \<leftarrow> rs. \<not> registers el ty (i, h) r \<and> \<not> registers el' ty' (j, g) r] = rs"
  using unregistered_new [OF assms(1), of el ty h] unregistered_new [OF assms(2), of el' ty' g]
  by (simp add: filter_id_conv) blast

lemma setFocusTrap_listeners:
  assumes tt: "getEdgeFocusables I tc tc None = Inr te"
    and tg: "getEdgeFocusables I None tg (Some True) = Inr ge"
    and s: "setFocusTrap I tc tg dmi ls = Inr (r, ls')"
    and l: "(el, ty, (n, FocusTrapHandler args)) \<in> set (listeners ls')"
  shows "(el, ty, (n, FocusTrapHandler args)) \<in> set (listeners ls)
    \<or> (FocusTrapArgs.start args = EdgeFocusables.start te
        \<and> FocusTrapArgs.end' args = EdgeFocusables.end' te \<and> lightningRod args = tc)
    \<or> (FocusTrapArgs.start args = EdgeFocusables.start ge
        \<and> FocusTrapArgs.end' args = EdgeFocusables.end' ge \<and> lightningRod args = None)"
proof (cases tc)
  case None
  with s l show ?thesis by (simp add: setFocusTrap_def)
next
  case (Some c)
  show ?thesis
  proof (cases "tg \<noteq> None \<and> \<not> truthyFlag dmi
          \<and> EdgeFocusables.start ge \<noteq> None \<and> EdgeFocusables.end' ge \<noteq> None")
    case True
    then obtain t where t: "tg = Some t" by auto
    from setFocusTrap_chained [OF tt [unfolded Some] tg [unfolded t], of dmi _ _ _ ls] True
      s l Some t
    show ?thesis by auto
  next
    case False
    then have u: "tg = None \<or> truthyFlag dmi
          \<or> EdgeFocusables.start ge = None \<or> EdgeFocusables.end' ge = None"
      by blast
    from setFocusTrap_unchained [OF tt [unfolded Some] tg u, of _ _ ls] s l Some
    show ?thesis by auto
  qed
qed

section \<open>Claims about \<open>targetChanged\<close>\<close>

text \<open>
  Claim C1 says that \<open>targetChanged\<close> answers \<open>true\<close> at once in every combination in
  which the target is present and the cached pair of coords and dims is not fully
  present. The test of the source is narrower: with the target present it asks that
  coords and dims are both absent. With only one of the two cached, the call goes on
  to the live measurement; on the page it then throws over the missing value, at the
  tolerance \<open>Infinity\<close> as at any other.
\<close>

theorem targetChanged_partial_snapshot_counterexample:
  "targetChanged page \<lparr>TargetChangedArgs.root = Some 0, target = Some 4,
      targetCoords = Some \<lparr>x = Num 10, y = Num 20\<rparr>, targetDims = None,
      rerenderTolerance = Infinity\<rparr>
     = Inl TypeError
   \<and> targetChanged page \<lparr>TargetChangedArgs.root = Some 0, target = Some 4,
      targetCoords = None, targetDims = Some \<lparr>width = Num 100, height = Num 40\<rparr>,
      rerenderTolerance = Infinity\<rparr>
     = Inl TypeError"
  by (simp add: targetChanged_def page_def pageDist_def pageAreaDiff_def)

text \<open>
  Claim C1, as amended: for every tolerance, \<open>Infinity\<close> included, and whatever the
  collaborators would measure, \<open>targetChanged\<close> answers \<open>true\<close> when the target is absent
  and the cached coords and dims are both present, and when the target is present and
  the cached coords and dims are both absent: the answer holds for every \<open>I\<close>, no
  measurement takes part in it. When the target is present and exactly one of coords
  and dims is cached, the call does not return at once: it is the live measurement,
  the size of the target, its position, the area difference to the cached size and
  the distance to the cached coords, taken in this order and compared with the
  tolerance. So a measurement that throws makes the call throw, and at the tolerance
  \<open>Infinity\<close> the call cannot answer \<open>true\<close>.
\<close>

theorem targetChanged_out_of_sync:
  "((TargetChangedArgs.target a = None \<and> targetCoords a \<noteq> None \<and> targetDims a \<noteq> None)
      \<or> (TargetChangedArgs.target a \<noteq> None \<and> targetCoords a = None \<and> targetDims a = None)
    \<longrightarrow> targetChanged I a = Inr True)
   \<and> (TargetChangedArgs.target a \<noteq> None \<and> (targetCoords a = None) \<noteq> (targetDims a = None)
    \<longrightarrow> targetChanged I a
          = andThen (getElementDims I (TargetChangedArgs.target a)) (\<lambda>currentTargetSize.
            andThen (getTargetPosition I (TargetChangedArgs.root a) (TargetChangedArgs.target a))
              (\<lambda>currentTargetPosition.
            andThen (areaDiff I currentTargetSize (targetDims a)) (\<lambda>sizeDiff.
            andThen (dist' I currentTargetPosition (targetCoords a)) (\<lambda>positionDiff.
              Inr (gt sizeDiff (rerenderTolerance a) \<or> gt positionDiff (rerenderTolerance a))))))
        \<and> (\<forall>e. getElementDims I (TargetChangedArgs.target a) = Inl e
              \<longrightarrow> targetChanged I a = Inl e)
        \<and> (rerenderTolerance a = Infinity \<longrightarrow> targetChanged I a \<noteq> Inr True))"
proof (intro conjI impI)
  assume "(TargetChangedArgs.target a = None \<and> targetCoords a \<noteq> None \<and> targetDims a \<noteq> None)
      \<or> (TargetChangedArgs.target a \<noteq> None \<and> targetCoords a = None \<and> targetDims a = None)"
  then show "targetChanged I a = Inr True"
    by (auto simp: targetChanged_def Let_def)
next
  assume h: "TargetChangedArgs.target a \<noteq> None \<and> (targetCoords a = None) \<noteq> (targetDims a = None)"
  then show m: "targetChanged I a
          = andThen (getElementDims I (TargetChangedArgs.target a)) (\<lambda>currentTargetSize.
            andThen (getTargetPosition I (TargetChangedArgs.root a) (TargetChangedArgs.target a))
              (\<lambda>currentTargetPosition.
            andThen (areaDiff I currentTargetSize (targetDims a)) (\<lambda>sizeDiff.
            andThen (dist' I currentTargetPosition (targetCoords a)) (\<lambda>positionDiff.
              Inr (gt sizeDiff (rerenderTolerance a) \<or> gt positionDiff (rerenderTolerance a))))))"
    by (auto simp: targetChanged_def Let_def)
  show "\<forall>e. getElementDims I (TargetChangedArgs.target a) = Inl e \<longrightarrow> targetChanged I a = Inl e"
    unfolding m by simp
  show "rerenderTolerance a = Infinity \<Longrightarrow> targetChanged I a \<noteq> Inr True"
    unfolding m by (auto simp: andThen_def split: sum.splits)
qed

text \<open>
  On a page where every collaborator throws, both out-of-sync bundles still answer
  \<open>true\<close>, and a bundle with the target and the coords but no dims throws with the first
  measurement; on the page that measures, the same bundle throws over the missing
  dims.
\<close>

theorem targetChanged_out_of_sync_witness:
  "targetChanged detached \<lparr>TargetChangedArgs.root = Some 0, target = Some 4,
      targetCoords = None, targetDims = None, rerenderTolerance = Infinity\<rparr> = Inr True
   \<and> targetChanged detached \<lparr>TargetChangedArgs.root = Some 0, target = None,
      targetCoords = Some \<lparr>x = Num 10, y = Num 20\<rparr>,
      targetDims = Some \<lparr>width = Num 100, height = Num 40\<rparr>,
      rerenderTolerance = Num 0\<rparr> = Inr True
   \<and> targetChanged detached \<lparr>TargetChangedArgs.root = Some 0, target = Some 4,
      targetCoords = Some \<lparr>x = Num 10, y = Num 20\<rparr>, targetDims = None,
      rerenderTolerance = Infinity\<rparr> = Inl (Thrown ''getElementDims'')
   \<and> targetChanged page \<lparr>TargetChangedArgs.root = Some 0, target = Some 4,
      targetCoords = Some \<lparr>x = Num 10, y = Num 20\<rparr>, targetDims = None,
      rerenderTolerance = Infinity\<rparr> = Inl TypeError"
proof -
  have 1: "targetChanged detached \<lparr>TargetChangedArgs.root = Some 0, target = Some 4,
      targetCoords = None, targetDims = None, rerenderTolerance = Infinity\<rparr> = Inr True"
    using targetChanged_out_of_sync [of "\<lparr>TargetChangedArgs.root = Some 0, target = Some 4,
      targetCoords = None, targetDims = None, rerenderTolerance = Infinity\<rparr>" detached]
    by simp
  have 2: "targetChanged detached \<lparr>TargetChangedArgs.root = Some 0, target = None,
      targetCoords = Some \<lparr>x = Num 10, y = Num 20\<rparr>,
      targetDims = Some \<lparr>width = Num 100, height = Num 40\<rparr>,
      rerenderTolerance = Num 0\<rparr> = Inr True"
    using targetChanged_out_of_sync [of "\<lparr>TargetChangedArgs.root = Some 0, target = None,
      targetCoords = Some \<lparr>x = Num 10, y = Num 20\<rparr>,
      targetDims = Some \<lparr>width = Num 100, height = Num 40\<rparr>,
      rerenderTolerance = Num 0\<rparr>" detached]
    by simp
  have 3: "targetChanged detached \<lparr>TargetChangedArgs.root = Some 0, target = Some 4,
      targetCoords = Some \<lparr>x = Num 10, y = Num 20\<rparr>, targetDims = None,
      rerenderTolerance = Infinity\<rparr> = Inl (Thrown ''getElementDims'')"
    using targetChanged_out_of_sync [of "\<lparr>TargetChangedArgs.root = Some 0, target = Some 4,
      targetCoords = Some \<lparr>x = Num 10, y = Num 20\<rparr>, targetDims = None,
      rerenderTolerance = Infinity\<rparr>" detached]
    by (simp add: detached_def)
  have 4: "targetChanged page \<lparr>TargetChangedArgs.root = Some 0, target = Some 4,
      targetCoords = Some \<lparr>x = Num 10, y = Num 20\<rparr>, targetDims = None,
      rerenderTolerance = Infinity\<rparr> = Inl TypeError"
    using targetChanged_out_of_sync [of "\<lparr>TargetChangedArgs.root = Some 0, target = Some 4,
      targetCoords = Some \<lparr>x = Num 10, y = Num 20\<rparr>, targetDims = None,
      rerenderTolerance = Infinity\<rparr>" page]
    by (simp add: page_def)
  from 1 2 3 4 show ?thesis by blast
qed

text \<open>
  Claim C4: with the target, the cached coords and the cached dims all present, and the
  collaborators returning their measures, \<open>targetChanged\<close> answers \<open>true\<close> exactly when
  the area difference or the distance is strictly greater than the one tolerance
  \<open>rerenderTolerance\<close>; so it answers \<open>false\<close> at tolerance zero when the live geometry
  is the cached one (the collaborators measuring no difference between equal
  arguments); and it answers \<open>false\<close> when target, coords and dims are all absent.
\<close>

theorem targetChanged_compares:
  "(TargetChangedArgs.target a = Some t \<and> targetCoords a = Some c \<and> targetDims a = Some d
      \<and> getElementDims I (Some t) = Inr sz
      \<and> getTargetPosition I (TargetChangedArgs.root a) (Some t) = Inr pos
      \<and> areaDiff I sz (Some d) = Inr sizeDiff \<and> dist' I pos (Some c) = Inr posDiff
    \<longrightarrow> targetChanged I a
          = Inr (gt sizeDiff (rerenderTolerance a) \<or> gt posDiff (rerenderTolerance a)))
   \<and> (TargetChangedArgs.target a = Some t \<and> targetCoords a = Some c \<and> targetDims a = Some d
      \<and> getElementDims I (Some t) = Inr d
      \<and> getTargetPosition I (TargetChangedArgs.root a) (Some t) = Inr c
      \<and> areaDiff I d (Some d) = Inr (Num 0) \<and> dist' I c (Some c) = Inr (Num 0)
      \<and> rerenderTolerance a = Num 0
    \<longrightarrow> targetChanged I a = Inr False)
   \<and> (TargetChangedArgs.target a = None \<and> targetCoords a = None \<and> targetDims a = None
    \<longrightarrow> targetChanged I a = Inr False)"
  by (simp add: targetChanged_def Let_def)

text \<open>
  On the page: a target whose cached height was 50 and is now 40 has changed at
  tolerance 5; a target measured as cached has not changed at tolerance 0; a bundle with
  nothing in it has not changed.
\<close>

theorem targetChanged_compares_witness:
  "targetChanged page \<lparr>TargetChangedArgs.root = Some 0, target = Some 4,
        targetCoords = Some \<lparr>x = Num 10, y = Num 20\<rparr>, targetDims = Some \<lparr>width = Num 100, height = Num 50\<rparr>,
        rerenderTolerance = Num 5\<rparr> = Inr True
   \<and> targetChanged page \<lparr>TargetChangedArgs.root = Some 0, target = Some 4,
        targetCoords = Some \<lparr>x = Num 10, y = Num 20\<rparr>, targetDims = Some \<lparr>width = Num 100, height = Num 40\<rparr>,
        rerenderTolerance = Num 0\<rparr> = Inr False
   \<and> targetChanged page \<lparr>TargetChangedArgs.root = Some 0, target = None,
        targetCoords = None, targetDims = None, rerenderTolerance = Num 0\<rparr> = Inr False"
proof -
  have m: "getElementDims page (Some 4) = Inr \<lparr>width = Num 100, height = Num 40\<rparr>"
    "getTargetPosition page (Some 0) (Some 4) = Inr \<lparr>x = Num 10, y = Num 20\<rparr>"
    "areaDiff page \<lparr>width = Num 100, height = Num 40\<rparr> (Some \<lparr>width = Num 100, height = Num 50\<rparr>) = Inr (Num 1000)"
    "areaDiff page \<lparr>width = Num 100, height = Num 40\<rparr> (Some \<lparr>width = Num 100, height = Num 40\<rparr>) = Inr (Num 0)"
    "dist' page \<lparr>x = Num 10, y = Num 20\<rparr> (Some \<lparr>x = Num 10, y = Num 20\<rparr>) = Inr (Num 0)"
    by (simp_all add: page_def pageDist_def pageAreaDiff_def)
  show ?thesis
    using m
      targetChanged_compares [of "\<lparr>TargetChangedArgs.root = Some 0, target = Some 4,
        targetCoords = Some \<lparr>x = Num 10, y = Num 20\<rparr>, targetDims = Some \<lparr>width = Num 100, height = Num 50\<rparr>,
        rerenderTolerance = Num 5\<rparr>" 4 "\<lparr>x = Num 10, y = Num 20\<rparr>" "\<lparr>width = Num 100, height = Num 50\<rparr>"
        page "\<lparr>width = Num 100, height = Num 40\<rparr>" "\<lparr>x = Num 10, y = Num 20\<rparr>" "Num 1000" "Num 0"]
      targetChanged_compares [of "\<lparr>TargetChangedArgs.root = Some 0, target = Some 4,
        targetCoords = Some \<lparr>x = Num 10, y = Num 20\<rparr>, targetDims = Some \<lparr>width = Num 100, height = Num 40\<rparr>,
        rerenderTolerance = Num 0\<rparr>" 4 "\<lparr>x = Num 10, y = Num 20\<rparr>" "\<lparr>width = Num 100, height = Num 40\<rparr>"
        page "\<lparr>width = Num 100, height = Num 40\<rparr>" "\<lparr>x = Num 10, y = Num 20\<rparr>" "Num 0" "Num 0"]
      targetChanged_compares [of "\<lparr>TargetChangedArgs.root = Some 0, target = None,
        targetCoords = None, targetDims = None, rerenderTolerance = Num 0\<rparr>" _ _ _ page]
    by simp
qed

section \<open>Claim about \<open>shouldScroll\<close>\<close>

text \<open>
  Claim C2: \<open>shouldScroll\<close> answers \<open>false\<close> when root, tooltip or target is missing or
  when \<open>disableAutoScroll\<close> is true. Otherwise, with \<open>allowForeignTarget\<close> set and a
  selector given (a non-empty string: the source tests the selector for truthiness),
  it answers the negation of the foreign-target predicate and consults no other
  collaborator. Otherwise it answers \<open>true\<close> when the tooltip at its position is not in
  view; else, when the target is in view, \<open>false\<close>; else whether the target's size fits
  within the viewport's.
\<close>

theorem shouldScroll_decides:
  "(NaiveShouldScrollArgs.root a = None \<or> NaiveShouldScrollArgs.tooltip a = None
      \<or> NaiveShouldScrollArgs.target a = None \<or> disableAutoScroll a = Some True
    \<longrightarrow> shouldScroll I a = Inr False)
   \<and> (NaiveShouldScrollArgs.root a \<noteq> None \<and> NaiveShouldScrollArgs.tooltip a \<noteq> None
      \<and> NaiveShouldScrollArgs.target a \<noteq> None \<and> disableAutoScroll a \<noteq> Some True
      \<and> allowForeignTarget a = Some True \<and> selector a = Some sel \<and> sel \<noteq> []
    \<longrightarrow> (\<forall>foreign. isForeignTarget I (NaiveShouldScrollArgs.root a) (Some sel) = Inr foreign
            \<longrightarrow> shouldScroll I a = Inr (\<not> foreign))
        \<and> (\<forall>I'. isForeignTarget I' = isForeignTarget I \<longrightarrow> shouldScroll I' a = shouldScroll I a))
   \<and> (NaiveShouldScrollArgs.root a \<noteq> None \<and> NaiveShouldScrollArgs.tooltip a \<noteq> None
      \<and> NaiveShouldScrollArgs.target a \<noteq> None \<and> disableAutoScroll a \<noteq> Some True
      \<and> \<not> (allowForeignTarget a = Some True \<and> truthyString (selector a))
    \<longrightarrow> (isElementInView I (NaiveShouldScrollArgs.root a) (NaiveShouldScrollArgs.tooltip a)
            (NaiveShouldScrollArgs.tooltipPosition a) = Inr False
          \<longrightarrow> shouldScroll I a = Inr True)
        \<and> (isElementInView I (NaiveShouldScrollArgs.root a) (NaiveShouldScrollArgs.tooltip a)
            (NaiveShouldScrollArgs.tooltipPosition a) = Inr True
          \<and> isElementInView I (NaiveShouldScrollArgs.root a) (NaiveShouldScrollArgs.target a) None
              = Inr True
          \<longrightarrow> shouldScroll I a = Inr False)
        \<and> (isElementInView I (NaiveShouldScrollArgs.root a) (NaiveShouldScrollArgs.tooltip a)
            (NaiveShouldScrollArgs.tooltipPosition a) = Inr True
          \<and> isElementInView I (NaiveShouldScrollArgs.root a) (NaiveShouldScrollArgs.target a) None
              = Inr False
          \<and> getElementDims I (NaiveShouldScrollArgs.target a) = Inr targetSize
          \<and> getViewportDims I (NaiveShouldScrollArgs.root a) = Inr viewportSize
          \<and> fitsWithin I targetSize viewportSize = Inr fits
          \<longrightarrow> shouldScroll I a = Inr fits))"
  by (auto simp: shouldScroll_def naiveShouldScroll_def Let_def truthyFlag_def truthyString_def)

text \<open>
  On the page: auto-scroll disabled; a foreign-target selector; the tooltip out of
  view; everything in view; the target out of view and small enough (with an empty
  selector, which is no selector).
\<close>

theorem shouldScroll_decides_witness:
  "shouldScroll page \<lparr>NaiveShouldScrollArgs.root = Some 0, tooltip = Some 1,
        tooltipPosition = Some \<lparr>x = Num 350, y = Num 280\<rparr>, target = Some 4,
        disableAutoScroll = Some True, allowForeignTarget = None, selector = None\<rparr> = Inr False
   \<and> shouldScroll page \<lparr>NaiveShouldScrollArgs.root = Some 0, tooltip = Some 1,
        tooltipPosition = Some \<lparr>x = Num 350, y = Num 280\<rparr>, target = Some 4,
        disableAutoScroll = None, allowForeignTarget = Some True, selector = Some ''#step''\<rparr>
      = Inr True
   \<and> shouldScroll (page\<lparr>isElementInView := (\<lambda>r el p. Inr (el \<noteq> Some 1))\<rparr>)
        \<lparr>NaiveShouldScrollArgs.root = Some 0, tooltip = Some 1,
        tooltipPosition = Some \<lparr>x = Num 350, y = Num 280\<rparr>, target = Some 4,
        disableAutoScroll = None, allowForeignTarget = None, selector = None\<rparr> = Inr True
   \<and> shouldScroll page \<lparr>NaiveShouldScrollArgs.root = Some 0, tooltip = Some 1,
        tooltipPosition = Some \<lparr>x = Num 350, y = Num 280\<rparr>, target = Some 4,
        disableAutoScroll = None, allowForeignTarget = None, selector = None\<rparr> = Inr False
   \<and> shouldScroll (page\<lparr>isElementInView := (\<lambda>r el p. Inr (el \<noteq> Some 4))\<rparr>)
        \<lparr>NaiveShouldScrollArgs.root = Some 0, tooltip = Some 1,
        tooltipPosition = Some \<lparr>x = Num 350, y = Num 280\<rparr>, target = Some 4,
        disableAutoScroll = None, allowForeignTarget = Some True, selector = Some []\<rparr>
      = Inr True"
proof -
  have c: "isForeignTarget page r s = Inr False"
    "isElementInView page r el p = Inr True"
    "isElementInView (page\<lparr>isElementInView := (\<lambda>r el p. Inr (el \<noteq> Some 1))\<rparr>) r el p
       = Inr (el \<noteq> Some 1)"
    "isElementInView (page\<lparr>isElementInView := (\<lambda>r el p. Inr (el \<noteq> Some 4))\<rparr>) r el p
       = Inr (el \<noteq> Some 4)"
    "getElementDims (page\<lparr>isElementInView := (\<lambda>r el p. Inr (el \<noteq> Some 4))\<rparr>) (Some 4)
       = Inr \<lparr>width = Num 100, height = Num 40\<rparr>"
    "getViewportDims (page\<lparr>isElementInView := (\<lambda>r el p. Inr (el \<noteq> Some 4))\<rparr>) r
       = Inr \<lparr>width = Num 800, height = Num 600\<rparr>"
    "fitsWithin (page\<lparr>isElementInView := (\<lambda>r el p. Inr (el \<noteq> Some 4))\<rparr>)
       \<lparr>width = Num 100, height = Num 40\<rparr> \<lparr>width = Num 800, height = Num 600\<rparr> = Inr True"
    for r s el p
    by (simp_all add: page_def pageDist_def pageAreaDiff_def)
  have 1: "shouldScroll page \<lparr>NaiveShouldScrollArgs.root = Some 0, tooltip = Some 1,
        tooltipPosition = Some \<lparr>x = Num 350, y = Num 280\<rparr>, target = Some 4,
        disableAutoScroll = Some True, allowForeignTarget = None, selector = None\<rparr> = Inr False"
    using shouldScroll_decides [of "\<lparr>NaiveShouldScrollArgs.root = Some 0, tooltip = Some 1,
        tooltipPosition = Some \<lparr>x = Num 350, y = Num 280\<rparr>, target = Some 4,
        disableAutoScroll = Some True, allowForeignTarget = None, selector = None\<rparr>" page
        "[]" "\<lparr>width = Num 0, height = Num 0\<rparr>" "\<lparr>width = Num 0, height = Num 0\<rparr>" True]
    by simp
  have 2: "shouldScroll page \<lparr>NaiveShouldScrollArgs.root = Some 0, tooltip = Some 1,
        tooltipPosition = Some \<lparr>x = Num 350, y = Num 280\<rparr>, target = Some 4,
        disableAutoScroll = None, allowForeignTarget = Some True, selector = Some ''#step''\<rparr>
      = Inr True"
    using c(1) shouldScroll_decides [of "\<lparr>NaiveShouldScrollArgs.root = Some 0, tooltip = Some 1,
        tooltipPosition = Some \<lparr>x = Num 350, y = Num 280\<rparr>, target = Some 4,
        disableAutoScroll = None, allowForeignTarget = Some True, selector = Some ''#step''\<rparr>"
        page "''#step''" "\<lparr>width = Num 0, height = Num 0\<rparr>" "\<lparr>width = Num 0, height = Num 0\<rparr>" True]
    by auto
  have 3: "shouldScroll (page\<lparr>isElementInView := (\<lambda>r el p. Inr (el \<noteq> Some 1))\<rparr>)
        \<lparr>NaiveShouldScrollArgs.root = Some 0, tooltip = Some 1,
        tooltipPosition = Some \<lparr>x = Num 350, y = Num 280\<rparr>, target = Some 4,
        disableAutoScroll = None, allowForeignTarget = None, selector = None\<rparr> = Inr True"
    using c(3) shouldScroll_decides [of "\<lparr>NaiveShouldScrollArgs.root = Some 0, tooltip = Some 1,
        tooltipPosition = Some \<lparr>x = Num 350, y = Num 280\<rparr>, target = Some 4,
        disableAutoScroll = None, allowForeignTarget = None, selector = None\<rparr>"
        "page\<lparr>isElementInView := (\<lambda>r el p. Inr (el \<noteq> Some 1))\<rparr>"
        "[]" "\<lparr>width = Num 0, height = Num 0\<rparr>" "\<lparr>width = Num 0, height = Num 0\<rparr>" True]
    by (simp add: truthyString_def)
  have 4: "shouldScroll page \<lparr>NaiveShouldScrollArgs.root = Some 0, tooltip = Some 1,
        tooltipPosition = Some \<lparr>x = Num 350, y = Num 280\<rparr>, target = Some 4,
        disableAutoScroll = None, allowForeignTarget = None, selector = None\<rparr> = Inr False"
    using c(2) shouldScroll_decides [of "\<lparr>NaiveShouldScrollArgs.root = Some 0, tooltip = Some 1,
        tooltipPosition = Some \<lparr>x = Num 350, y = Num 280\<rparr>, target = Some 4,
        disableAutoScroll = None, allowForeignTarget = None, selector = None\<rparr>" page
        "[]" "\<lparr>width = Num 0, height = Num 0\<rparr>" "\<lparr>width = Num 0, height = Num 0\<rparr>" True]
    by (simp add: truthyString_def)
  have 5: "shouldScroll (page\<lparr>isElementInView := (\<lambda>r el p. Inr (el \<noteq> Some 4))\<rparr>)
        \<lparr>NaiveShouldScrollArgs.root = Some 0, tooltip = Some 1,
        tooltipPosition = Some \<lparr>x = Num 350, y = Num 280\<rparr>, target = Some 4,
        disableAutoScroll = None, allowForeignTarget = Some True, selector = Some []\<rparr>
      = Inr True"
    using c(4-7) shouldScroll_decides [of "\<lparr>NaiveShouldScrollArgs.root = Some 0, tooltip = Some 1,
        tooltipPosition = Some \<lparr>x = Num 350, y = Num 280\<rparr>, target = Some 4,
        disableAutoScroll = None, allowForeignTarget = Some True, selector = Some []\<rparr>"
        "page\<lparr>isElementInView := (\<lambda>r el p. Inr (el \<noteq> Some 4))\<rparr>" "[]"
        "\<lparr>width = Num 100, height = Num 40\<rparr>" "\<lparr>width = Num 800, height = Num 600\<rparr>" True]
    by (simp add: truthyString_def)
  from 1 2 3 4 5 show ?thesis by blast
qed

section \<open>Claims about \<open>tooltipDesync\<close>\<close>

text \<open>
  Claim C5: \<open>tooltipDesync\<close> answers \<open>false\<close> whenever a target is present, whatever
  position would be computed, and whenever root or tooltip is missing. In every other
  case it computes the tooltip position anew and answers \<open>true\<close> exactly when the
  distance between the computed coords and the rendered position is not zero: there
  is no tolerance.
\<close>

theorem tooltipDesync_exact:
  "(GetTooltipPositionArgs.target a \<noteq> None \<longrightarrow> tooltipDesync I a = Inr False)
   \<and> (GetTooltipPositionArgs.root a = None \<or> GetTooltipPositionArgs.tooltip a = None
      \<longrightarrow> tooltipDesync I a = Inr False)
   \<and> (GetTooltipPositionArgs.target a = None \<and> GetTooltipPositionArgs.root a \<noteq> None
      \<and> GetTooltipPositionArgs.tooltip a \<noteq> None
      \<and> getTooltipPosition I a = Inr p
      \<and> dist' I (coords p) (TooltipDesyncArgs.tooltipPosition a) = Inr d
      \<longrightarrow> tooltipDesync I a = Inr (d \<noteq> Num 0))"
  by (auto simp: tooltipDesync_def Let_def strictNotEqual_def)

text \<open>
  On the page, whose tooltip belongs at (350, 280): a target is present; the root is
  missing; the tooltip is rendered one pixel off; the tooltip is rendered in place.
\<close>

theorem tooltipDesync_exact_witness:
  "tooltipDesync page \<lparr>GetTooltipPositionArgs.target = Some 4, root = Some 0, tooltip = Some 1,
      tooltipPosition = Some \<lparr>x = Num 0, y = Num 0\<rparr>\<rparr> = Inr False
   \<and> tooltipDesync page \<lparr>GetTooltipPositionArgs.target = None, root = None, tooltip = Some 1,
      tooltipPosition = Some \<lparr>x = Num 0, y = Num 0\<rparr>\<rparr> = Inr False
   \<and> tooltipDesync page \<lparr>GetTooltipPositionArgs.target = None, root = Some 0, tooltip = Some 1,
      tooltipPosition = Some \<lparr>x = Num 350, y = Num 279\<rparr>\<rparr> = Inr True
   \<and> tooltipDesync page \<lparr>GetTooltipPositionArgs.target = None, root = Some 0, tooltip = Some 1,
      tooltipPosition = Some \<lparr>x = Num 350, y = Num 280\<rparr>\<rparr> = Inr False"
proof -
  have p: "getTooltipPosition page a
      = Inr \<lparr>orientation = ''center'', coords = \<lparr>x = Num 350, y = Num 280\<rparr>\<rparr>" for a
    by (simp add: page_def pageDist_def pageAreaDiff_def)
  have d: "dist' page \<lparr>x = Num 350, y = Num 280\<rparr> (Some \<lparr>x = Num 350, y = Num 279\<rparr>) = Inr (Num 1)"
    "dist' page \<lparr>x = Num 350, y = Num 280\<rparr> (Some \<lparr>x = Num 350, y = Num 280\<rparr>) = Inr (Num 0)"
    by (simp_all add: page_def pageDist_def pageAreaDiff_def)
  show ?thesis
    using p d
      tooltipDesync_exact [of "\<lparr>GetTooltipPositionArgs.target = Some 4, root = Some 0,
        tooltip = Some 1, tooltipPosition = Some \<lparr>x = Num 0, y = Num 0\<rparr>\<rparr>" page]
      tooltipDesync_exact [of "\<lparr>GetTooltipPositionArgs.target = None, root = None,
        tooltip = Some 1, tooltipPosition = Some \<lparr>x = Num 0, y = Num 0\<rparr>\<rparr>" page]
      tooltipDesync_exact [of "\<lparr>GetTooltipPositionArgs.target = None, root = Some 0,
        tooltip = Some 1, tooltipPosition = Some \<lparr>x = Num 350, y = Num 279\<rparr>\<rparr>" page
        "\<lparr>orientation = ''center'', coords = \<lparr>x = Num 350, y = Num 280\<rparr>\<rparr>" "Num 1"]
      tooltipDesync_exact [of "\<lparr>GetTooltipPositionArgs.target = None, root = Some 0,
        tooltip = Some 1, tooltipPosition = Some \<lparr>x = Num 350, y = Num 280\<rparr>\<rparr>" page
        "\<lparr>orientation = ''center'', coords = \<lparr>x = Num 350, y = Num 280\<rparr>\<rparr>" "Num 0"]
    by simp
qed

text \<open>
  Claim C10: with no target and with root and tooltip present, the answer of
  \<open>tooltipDesync\<close> depends on the coords of the computed position only: two position
  functions that agree on the coords give the same answer, whatever orientation each
  one reports; and the answer is \<open>false\<close> when the computed coords are the rendered
  position (the distance of a point to itself being zero).
\<close>

theorem tooltipDesync_coords_only:
  "(GetTooltipPositionArgs.target a = None \<and> GetTooltipPositionArgs.root a \<noteq> None
      \<and> GetTooltipPositionArgs.tooltip a \<noteq> None
      \<and> getTooltipPosition I a = Inr p \<and> getTooltipPosition I' a = Inr p'
      \<and> coords p = coords p' \<and> dist' I' = dist' I
    \<longrightarrow> tooltipDesync I' a = tooltipDesync I a)
   \<and> (GetTooltipPositionArgs.target a = None \<and> GetTooltipPositionArgs.root a \<noteq> None
      \<and> GetTooltipPositionArgs.tooltip a \<noteq> None
      \<and> getTooltipPosition I a = Inr p
      \<and> TooltipDesyncArgs.tooltipPosition a = Some (coords p)
      \<and> dist' I (coords p) (Some (coords p)) = Inr (Num 0)
    \<longrightarrow> tooltipDesync I a = Inr False)"
  by (auto simp: tooltipDesync_def Let_def strictNotEqual_def)

text \<open>
  On the page, a position function that reports the orientation \<open>east\<close> in place of
  \<open>center\<close>, at the same coords, changes nothing: no update.
\<close>

theorem tooltipDesync_coords_only_witness:
  "tooltipDesync (page\<lparr>getTooltipPosition :=
        (\<lambda>a. Inr \<lparr>orientation = ''east'', coords = \<lparr>x = Num 350, y = Num 280\<rparr>\<rparr>)\<rparr>)
      \<lparr>GetTooltipPositionArgs.target = None, root = Some 0, tooltip = Some 1,
        tooltipPosition = Some \<lparr>x = Num 350, y = Num 280\<rparr>\<rparr>
    = tooltipDesync page
      \<lparr>GetTooltipPositionArgs.target = None, root = Some 0, tooltip = Some 1,
        tooltipPosition = Some \<lparr>x = Num 350, y = Num 280\<rparr>\<rparr>
   \<and> tooltipDesync page
      \<lparr>GetTooltipPositionArgs.target = None, root = Some 0, tooltip = Some 1,
        tooltipPosition = Some \<lparr>x = Num 350, y = Num 280\<rparr>\<rparr> = Inr False"
proof -
  have p: "getTooltipPosition page a
      = Inr \<lparr>orientation = ''center'', coords = \<lparr>x = Num 350, y = Num 280\<rparr>\<rparr>" for a
    by (simp add: page_def pageDist_def pageAreaDiff_def)
  have d: "dist' page \<lparr>x = Num 350, y = Num 280\<rparr> (Some \<lparr>x = Num 350, y = Num 280\<rparr>) = Inr (Num 0)"
    by (simp_all add: page_def pageDist_def pageAreaDiff_def)
  show ?thesis
    using p d
      tooltipDesync_coords_only [of "\<lparr>GetTooltipPositionArgs.target = None, root = Some 0,
        tooltip = Some 1, tooltipPosition = Some \<lparr>x = Num 350, y = Num 280\<rparr>\<rparr>" page
        "\<lparr>orientation = ''center'', coords = \<lparr>x = Num 350, y = Num 280\<rparr>\<rparr>"
        "page\<lparr>getTooltipPosition :=
          (\<lambda>a. Inr \<lparr>orientation = ''east'', coords = \<lparr>x = Num 350, y = Num 280\<rparr>\<rparr>)\<rparr>"
        "\<lparr>orientation = ''east'', coords = \<lparr>x = Num 350, y = Num 280\<rparr>\<rparr>"]
    by simp
qed

section \<open>Claim about \<open>applyCenterOffset\<close>\<close>

text \<open>
  Claim C6 says that the centre is kept for all coords and sizes. The source computes
  in doubles, and the subtraction of \<open>b.width / 2\<close> rounds. With \<open>a.x = 0\<close>, the width
  \<open>0.1\<close> for \<open>d\<close> (the double \<open>3602879701896397 / 2 ^ 55\<close>) and the width \<open>0.5\<close> for \<open>b\<close>,
  the box is placed at \<open>x = - 0.2\<close> (the double nearest to \<open>0.05 - 0.25\<close>), its centre is
  computed as \<open>1801439850948198 / 2 ^ 55\<close>, printed \<open>0.04999999999999999\<close>, and the centre
  of \<open>d\<close> as \<open>3602879701896397 / 2 ^ 56\<close>, printed \<open>0.05\<close>: one unit in the last place
  apart.
\<close>

theorem applyCenterOffset_rounding_counterexample:
  "toDouble (1 / 10) = Num (3602879701896397 / 2 ^ 55)
   \<and> jsAdd (x (applyCenterOffset \<lparr>x = Num 0, y = Num 0\<rparr>
              \<lparr>width = Num (3602879701896397 / 2 ^ 55), height = Num 0\<rparr>
              \<lparr>width = Num (1 / 2), height = Num 0\<rparr>))
        (jsHalf (Num (1 / 2)))
     = Num (1801439850948198 / 2 ^ 55)
   \<and> jsAdd (Num 0) (jsHalf (Num (3602879701896397 / 2 ^ 55))) = Num (3602879701896397 / 2 ^ 56)
   \<and> Num (1801439850948198 / 2 ^ 55) \<noteq> Num (3602879701896397 / 2 ^ 56)"
proof -
  have 1: "toDouble (3602879701896397 / 2 ^ 56) = Num (3602879701896397 / 2 ^ 56)"
    by (subst toDouble_binade [of "- 5"]) (simp_all add: pow2_def roundHalfEven_def Let_def)
  have 2: "toDouble (1 / 4) = Num (1 / 4)"
    by (subst toDouble_binade [of "- 2"]) (simp_all add: pow2_def roundHalfEven_def Let_def)
  have 3: "toDouble (3602879701896397 / 2 ^ 56 - 1 / 4) = Num (- (7205759403792794 / 2 ^ 55))"
    by (subst toDouble_binade [of "- 3"]) (simp_all add: pow2_def roundHalfEven_def Let_def)
  have 4: "toDouble (- (7205759403792794 / 2 ^ 55) + 1 / 4) = Num (1801439850948198 / 2 ^ 55)"
    by (subst toDouble_binade [of "- 5"]) (simp_all add: pow2_def roundHalfEven_def Let_def)
  have h: "jsHalf (Num (3602879701896397 / 2 ^ 55)) = Num (3602879701896397 / 2 ^ 56)"
    "jsHalf (Num (1 / 2)) = Num (1 / 4)"
    using 1 2 by simp_all
  have a: "jsAdd (Num 0) (Num (3602879701896397 / 2 ^ 56)) = Num (3602879701896397 / 2 ^ 56)"
    using 1 by simp
  have s: "jsSubtract (Num (3602879701896397 / 2 ^ 56)) (Num (1 / 4))
      = Num (- (7205759403792794 / 2 ^ 55))"
    using 3 by (simp add: jsSubtract_def)
  have b: "jsAdd (Num (- (7205759403792794 / 2 ^ 55))) (Num (1 / 4))
      = Num (1801439850948198 / 2 ^ 55)"
    using 4 by simp
  have n: "Num (1801439850948198 / 2 ^ 55) \<noteq> Num (3602879701896397 / 2 ^ 56)"
    by simp
  show ?thesis
    using double_tenth n
    by (simp only: applyCenterOffset_def Coords.simps Dims.simps h a s b simp_thms)
qed

text \<open>
  Claim C6, as amended: the box of size \<open>b\<close> placed at \<open>applyCenterOffset a d b\<close> has the
  centre of the box of size \<open>d\<close> anchored at \<open>a\<close>, in either component, whenever the
  subtraction that \<open>applyCenterOffset\<close> makes in that component is exact: the halves
  and the sum are finite, and the difference of the sum and the half of \<open>b\<close> is a double.
  This is so when the coords and the sizes are whole numbers of magnitude up to
  \<open>2 ^ 50\<close>: both centres then are the exact \<open>a + d / 2\<close>, whichever of the two boxes is
  the larger. Where the subtraction rounds, the two centres may differ by the
  rounding.
\<close>

theorem applyCenterOffset_centers:
  "(jsHalf (width d) = Num hw \<and> jsHalf (width b) = Num hv
      \<and> jsAdd (x a) (Num hw) = Num s \<and> toDouble (s - hv) = Num (s - hv)
    \<longrightarrow> jsAdd (x (applyCenterOffset a d b)) (jsHalf (width b)) = jsAdd (x a) (jsHalf (width d)))
   \<and> (jsHalf (height d) = Num hh \<and> jsHalf (height b) = Num hg
      \<and> jsAdd (y a) (Num hh) = Num t \<and> toDouble (t - hg) = Num (t - hg)
    \<longrightarrow> jsAdd (y (applyCenterOffset a d b)) (jsHalf (height b)) = jsAdd (y a) (jsHalf (height d)))
   \<and> (x a = Num (of_int i) \<and> width d = Num (of_int j) \<and> width b = Num (of_int k)
      \<and> \<bar>i\<bar> \<le> 2 ^ 50 \<and> \<bar>j\<bar> \<le> 2 ^ 50 \<and> \<bar>k\<bar> \<le> 2 ^ 50
    \<longrightarrow> jsAdd (x (applyCenterOffset a d b)) (jsHalf (width b)) = Num (of_int i + of_int j / 2)
        \<and> jsAdd (x a) (jsHalf (width d)) = Num (of_int i + of_int j / 2))
   \<and> (y a = Num (of_int i') \<and> height d = Num (of_int j') \<and> height b = Num (of_int k')
      \<and> \<bar>i'\<bar> \<le> 2 ^ 50 \<and> \<bar>j'\<bar> \<le> 2 ^ 50 \<and> \<bar>k'\<bar> \<le> 2 ^ 50
    \<longrightarrow> jsAdd (y (applyCenterOffset a d b)) (jsHalf (height b)) = Num (of_int i' + of_int j' / 2)
        \<and> jsAdd (y a) (jsHalf (height d)) = Num (of_int i' + of_int j' / 2))"
proof (intro conjI impI)
  assume "jsHalf (width d) = Num hw \<and> jsHalf (width b) = Num hv
      \<and> jsAdd (x a) (Num hw) = Num s \<and> toDouble (s - hv) = Num (s - hv)"
  then show "jsAdd (x (applyCenterOffset a d b)) (jsHalf (width b)) = jsAdd (x a) (jsHalf (width d))"
    using centre_exact [of "width d" hw "width b" hv "x a" s]
    by (simp add: applyCenterOffset_def)
next
  assume "jsHalf (height d) = Num hh \<and> jsHalf (height b) = Num hg
      \<and> jsAdd (y a) (Num hh) = Num t \<and> toDouble (t - hg) = Num (t - hg)"
  then show "jsAdd (y (applyCenterOffset a d b)) (jsHalf (height b)) = jsAdd (y a) (jsHalf (height d))"
    using centre_exact [of "height d" hh "height b" hg "y a" t]
    by (simp add: applyCenterOffset_def)
next
  assume h: "x a = Num (of_int i) \<and> width d = Num (of_int j) \<and> width b = Num (of_int k)
      \<and> \<bar>i\<bar> \<le> 2 ^ 50 \<and> \<bar>j\<bar> \<le> 2 ^ 50 \<and> \<bar>k\<bar> \<le> 2 ^ 50"
  then show "jsAdd (x (applyCenterOffset a d b)) (jsHalf (width b)) = Num (of_int i + of_int j / 2)"
    using centre_int(1) [of i j k] by (simp add: applyCenterOffset_def)
  from h show "jsAdd (x a) (jsHalf (width d)) = Num (of_int i + of_int j / 2)"
    using centre_int(2) [of i j k] by simp
next
  assume h: "y a = Num (of_int i') \<and> height d = Num (of_int j') \<and> height b = Num (of_int k')
      \<and> \<bar>i'\<bar> \<le> 2 ^ 50 \<and> \<bar>j'\<bar> \<le> 2 ^ 50 \<and> \<bar>k'\<bar> \<le> 2 ^ 50"
  then show "jsAdd (y (applyCenterOffset a d b)) (jsHalf (height b)) = Num (of_int i' + of_int j' / 2)"
    using centre_int(1) [of i' j' k'] by (simp add: applyCenterOffset_def)
  from h show "jsAdd (y a) (jsHalf (height d)) = Num (of_int i' + of_int j' / 2)"
    using centre_int(2) [of i' j' k'] by simp
qed

text \<open>
  A box of 100 by 40 at (10, 20), and a box of 41 by 300 centred on it: narrower and
  taller. Both have the centre (60, 40).
\<close>

theorem applyCenterOffset_centers_witness:
  "jsAdd (x (applyCenterOffset \<lparr>x = Num 10, y = Num 20\<rparr> \<lparr>width = Num 100, height = Num 40\<rparr>
              \<lparr>width = Num 41, height = Num 300\<rparr>)) (jsHalf (Num 41)) = Num 60
   \<and> jsAdd (Num 10) (jsHalf (Num 100)) = Num 60
   \<and> jsAdd (y (applyCenterOffset \<lparr>x = Num 10, y = Num 20\<rparr> \<lparr>width = Num 100, height = Num 40\<rparr>
              \<lparr>width = Num 41, height = Num 300\<rparr>)) (jsHalf (Num 300)) = Num 40
   \<and> jsAdd (Num 20) (jsHalf (Num 40)) = Num 40
   \<and> jsAdd (x (applyCenterOffset \<lparr>x = Num 10, y = Num 20\<rparr> \<lparr>width = Num 100, height = Num 40\<rparr>
              \<lparr>width = Num 41, height = Num 300\<rparr>)) (jsHalf (Num 41))
     = jsAdd (Num 10) (jsHalf (Num 100))
   \<and> jsAdd (y (applyCenterOffset \<lparr>x = Num 10, y = Num 20\<rparr> \<lparr>width = Num 100, height = Num 40\<rparr>
              \<lparr>width = Num 41, height = Num 300\<rparr>)) (jsHalf (Num 300))
     = jsAdd (Num 20) (jsHalf (Num 40))"
proof -
  have h: "jsHalf (Num 100) = Num 50" "jsHalf (Num 41) = Num (41 / 2)"
    "jsHalf (Num 40) = Num 20" "jsHalf (Num 300) = Num 150"
    using half_int_sum [of 100 50] half_int_sum [of 41 "41 / 2"]
      half_int_sum [of 40 20] half_int_sum [of 300 150]
    by simp_all
  have s: "jsAdd (Num 10) (Num 50) = Num 60" "jsAdd (Num 20) (Num 20) = Num 40"
    using half_int_sum [of 120 60] half_int_sum [of 80 40]
    by simp_all
  have d: "toDouble (60 - 41 / 2) = Num (60 - 41 / 2)" "toDouble (40 - 150) = Num (40 - 150)"
    using half_int_sum [of 79 "60 - 41 / 2"] half_int_sum [of "- 220" "40 - 150"]
    by simp_all
  note c = applyCenterOffset_centers [where a = "\<lparr>x = Num 10, y = Num 20\<rparr>"
      and d = "\<lparr>width = Num 100, height = Num 40\<rparr>" and b = "\<lparr>width = Num 41, height = Num 300\<rparr>"
      and hw = 50 and hv = "41 / 2" and s = 60 and hh = 20 and hg = 150 and t = 40
      and i = 10 and j = 100 and k = 41 and i' = 20 and j' = 40 and k' = 300]
  have 1: "jsAdd (x (applyCenterOffset \<lparr>x = Num 10, y = Num 20\<rparr> \<lparr>width = Num 100, height = Num 40\<rparr>
              \<lparr>width = Num 41, height = Num 300\<rparr>)) (jsHalf (Num 41)) = Num 60"
    using c by simp
  have 2: "jsAdd (Num 10) (jsHalf (Num 100)) = Num 60"
    using c by simp
  have 3: "jsAdd (y (applyCenterOffset \<lparr>x = Num 10, y = Num 20\<rparr> \<lparr>width = Num 100, height = Num 40\<rparr>
              \<lparr>width = Num 41, height = Num 300\<rparr>)) (jsHalf (Num 300)) = Num 40"
    using c by simp
  have 4: "jsAdd (Num 20) (jsHalf (Num 40)) = Num 40"
    using c by simp
  have 5: "jsAdd (x (applyCenterOffset \<lparr>x = Num 10, y = Num 20\<rparr> \<lparr>width = Num 100, height = Num 40\<rparr>
              \<lparr>width = Num 41, height = Num 300\<rparr>)) (jsHalf (Num 41))
     = jsAdd (Num 10) (jsHalf (Num 100))"
    using c h s d by simp
  have 6: "jsAdd (y (applyCenterOffset \<lparr>x = Num 10, y = Num 20\<rparr> \<lparr>width = Num 100, height = Num 40\<rparr>
              \<lparr>width = Num 41, height = Num 300\<rparr>)) (jsHalf (Num 300))
     = jsAdd (Num 20) (jsHalf (Num 40))"
    using c h s d by simp
  from 1 2 3 4 5 6 show ?thesis by blast
qed

section \<open>Claims about the focus trap\<close>

text \<open>
  Claim C3 says that any Tab keydown whose event target is the tooltip container
  focuses the first element of the tooltip. The handler tests the two edges of the
  trap before it tests the lightning rod, and \<open>setFocusTrap\<close> makes the container the
  lightning rod of a trap whose edges it takes from \<open>getEdgeFocusables\<close> as they come:
  it hands the container over as the first argument (for the target it hands over
  \<open>undefined\<close>) and tests the target's edges for absence, never the tooltip's. On the
  page, the container 8 has no focusable element below it and is its own first and
  last edge; chained to the target 4, Shift-Tab on the container goes to the target's
  last element 6 and Tab to the target's first element 5, not to the container.
\<close>

theorem lightning_rod_edge_counterexample:
  "getEdgeFocusables page (Some 8) (Some 8) None
     = Inr \<lparr>EdgeFocusables.start = Some 8, end' = Some 8\<rparr>
   \<and> getEdgeFocusables page None (Some 4) (Some True)
     = Inr \<lparr>EdgeFocusables.start = Some 5, end' = Some 6\<rparr>
   \<and> keydown (snd (projr (setFocusTrap page (Some 8) (Some 4) None pageStart))) 8
        \<lparr>keyCode = TAB_KEYCODE, shiftKey = True, target = 8\<rparr>
     = [([PreventDefault, Focus 6], None)]
   \<and> keydown (snd (projr (setFocusTrap page (Some 8) (Some 4) None pageStart))) 8
        \<lparr>keyCode = TAB_KEYCODE, shiftKey = False, target = 8\<rparr>
     = [([PreventDefault, Focus 5], None)]"
  by (simp add: setFocusTrap_def Let_def page_def pageStart_def truthyFlag_def newClosure_def
      addEventListener_def registers_def keydown_def
      getFocusTrapHandler_def preventDefaultThen_def focus_def)

text \<open>
  Claim C3, as amended: when the tooltip's edge focusables are \<open>A\<close> and \<open>B\<close>, the target's
  are \<open>C\<close> and \<open>D\<close>, a target is given and mask interaction is not disabled,
  \<open>setFocusTrap\<close> registers one keydown handler on the target and one on the tooltip
  container, and the two form one ring: Shift-Tab on \<open>A\<close> focuses \<open>D\<close>, Tab on \<open>D\<close>
  focuses \<open>A\<close>, Tab on \<open>B\<close> focuses \<open>C\<close>, Shift-Tab on \<open>C\<close> focuses \<open>B\<close>, each after
  the default action is prevented. When no target region is chained, only the
  tooltip's handler is registered, Tab on \<open>B\<close> focuses \<open>A\<close> and Shift-Tab on \<open>A\<close> focuses
  \<open>B\<close>. In both cases a Tab keydown on the tooltip container itself focuses \<open>A\<close>,
  unless the container is the edge that the key leaves (\<open>A\<close> with Shift, \<open>B\<close>
  without).
\<close>

theorem setFocusTrap_ring:
  assumes tt: "getEdgeFocusables I (Some tc) (Some tc) None
                 = Inr \<lparr>EdgeFocusables.start = Some A, end' = Some B\<rparr>"
  shows
    "(getEdgeFocusables I None (Some t) (Some True)
          = Inr \<lparr>EdgeFocusables.start = Some C, end' = Some D\<rparr>
        \<and> \<not> truthyFlag dmi
      \<longrightarrow> (\<exists>cl ls' ttH tgH i j.
            setFocusTrap I (Some tc) (Some t) dmi ls = Inr (Some cl, ls')
          \<and> set (listeners ls') = set (listeners ls)
                \<union> {(t, ''keydown'', (i, FocusTrapHandler tgH)),
                   (tc, ''keydown'', (j, FocusTrapHandler ttH))}
          \<and> getFocusTrapHandler ttH \<lparr>keyCode = TAB_KEYCODE, shiftKey = True, target = A\<rparr>
              = ([PreventDefault, Focus D], None)
          \<and> getFocusTrapHandler tgH \<lparr>keyCode = TAB_KEYCODE, shiftKey = False, target = D\<rparr>
              = ([PreventDefault, Focus A], None)
          \<and> getFocusTrapHandler ttH \<lparr>keyCode = TAB_KEYCODE, shiftKey = False, target = B\<rparr>
              = ([PreventDefault, Focus C], None)
          \<and> getFocusTrapHandler tgH \<lparr>keyCode = TAB_KEYCODE, shiftKey = True, target = C\<rparr>
              = ([PreventDefault, Focus B], None)
          \<and> (\<forall>s. \<not> (s \<and> tc = A) \<and> \<not> (\<not> s \<and> tc = B)
                \<longrightarrow> getFocusTrapHandler ttH \<lparr>keyCode = TAB_KEYCODE, shiftKey = s, target = tc\<rparr>
                      = ([PreventDefault, Focus A], None))))
   \<and> (getEdgeFocusables I None tg (Some True) = Inr ge
        \<and> (tg = None \<or> truthyFlag dmi
            \<or> EdgeFocusables.start ge = None \<or> EdgeFocusables.end' ge = None)
      \<longrightarrow> (\<exists>cl ls' ttH j.
            setFocusTrap I (Some tc) tg dmi ls = Inr (Some cl, ls')
          \<and> set (listeners ls') = set (listeners ls)
                \<union> {(tc, ''keydown'', (j, FocusTrapHandler ttH))}
          \<and> getFocusTrapHandler ttH \<lparr>keyCode = TAB_KEYCODE, shiftKey = False, target = B\<rparr>
              = ([PreventDefault, Focus A], None)
          \<and> getFocusTrapHandler ttH \<lparr>keyCode = TAB_KEYCODE, shiftKey = True, target = A\<rparr>
              = ([PreventDefault, Focus B], None)
          \<and> (\<forall>s. \<not> (s \<and> tc = A) \<and> \<not> (\<not> s \<and> tc = B)
                \<longrightarrow> getFocusTrapHandler ttH \<lparr>keyCode = TAB_KEYCODE, shiftKey = s, target = tc\<rparr>
                      = ([PreventDefault, Focus A], None))))"
proof (intro conjI impI)
  assume h: "getEdgeFocusables I None (Some t) (Some True)
          = Inr \<lparr>EdgeFocusables.start = Some C, end' = Some D\<rparr> \<and> \<not> truthyFlag dmi"
  define tgA where "tgA = \<lparr>start = Some C, end' = Some D,
           beforeStart = Some B, afterEnd = Some A, lightningRod = None\<rparr>"
  define ttA where "ttA = \<lparr>start = Some A, end' = Some B,
           beforeStart = Some D, afterEnd = Some C, lightningRod = Some tc\<rparr>"
  define i where "i = max (created ls) (identityBound (listeners ls))"
  define ls' where "ls' = \<lparr>listeners = listeners ls @ [(t, ''keydown'', (i, FocusTrapHandler tgA)),
                                        (tc, ''keydown'', (Suc i, FocusTrapHandler ttA))],
             created = Suc (Suc i)\<rparr>"
  have s: "setFocusTrap I (Some tc) (Some t) dmi ls
           = Inr (Some (setFocusTrapCleanup (Some t) (Some (i, FocusTrapHandler tgA)) (Some tc)
                          (Suc i, FocusTrapHandler ttA)), ls')"
    using setFocusTrap_chained [OF tt, of t "\<lparr>EdgeFocusables.start = Some C, end' = Some D\<rparr>" dmi
        tgA ttA i ls] h
    by (simp add: tgA_def ttA_def i_def ls'_def)
  have l: "set (listeners ls') = set (listeners ls)
                \<union> {(t, ''keydown'', (i, FocusTrapHandler tgA)),
                   (tc, ''keydown'', (Suc i, FocusTrapHandler ttA))}"
    by (auto simp: ls'_def)
  have "getFocusTrapHandler ttA \<lparr>keyCode = TAB_KEYCODE, shiftKey = True, target = A\<rparr>
              = ([PreventDefault, Focus D], None)"
    by (rule handler_start_back) (simp_all add: ttA_def)
  moreover have "getFocusTrapHandler tgA \<lparr>keyCode = TAB_KEYCODE, shiftKey = False, target = D\<rparr>
              = ([PreventDefault, Focus A], None)"
    by (rule handler_end_forward) (simp_all add: tgA_def)
  moreover have "getFocusTrapHandler ttA \<lparr>keyCode = TAB_KEYCODE, shiftKey = False, target = B\<rparr>
              = ([PreventDefault, Focus C], None)"
    by (rule handler_end_forward) (simp_all add: ttA_def)
  moreover have "getFocusTrapHandler tgA \<lparr>keyCode = TAB_KEYCODE, shiftKey = True, target = C\<rparr>
              = ([PreventDefault, Focus B], None)"
    by (rule handler_start_back) (simp_all add: tgA_def)
  moreover have "\<forall>s. \<not> (s \<and> tc = A) \<and> \<not> (\<not> s \<and> tc = B)
                \<longrightarrow> getFocusTrapHandler ttA \<lparr>keyCode = TAB_KEYCODE, shiftKey = s, target = tc\<rparr>
                      = ([PreventDefault, Focus A], None)"
    by (intro allI impI, rule handler_rod) (auto simp: ttA_def)
  ultimately show "\<exists>cl ls' ttH tgH i j.
            setFocusTrap I (Some tc) (Some t) dmi ls = Inr (Some cl, ls')
          \<and> set (listeners ls') = set (listeners ls)
                \<union> {(t, ''keydown'', (i, FocusTrapHandler tgH)),
                   (tc, ''keydown'', (j, FocusTrapHandler ttH))}
          \<and> getFocusTrapHandler ttH \<lparr>keyCode = TAB_KEYCODE, shiftKey = True, target = A\<rparr>
              = ([PreventDefault, Focus D], None)
          \<and> getFocusTrapHandler tgH \<lparr>keyCode = TAB_KEYCODE, shiftKey = False, target = D\<rparr>
              = ([PreventDefault, Focus A], None)
          \<and> getFocusTrapHandler ttH \<lparr>keyCode = TAB_KEYCODE, shiftKey = False, target = B\<rparr>
              = ([PreventDefault, Focus C], None)
          \<and> getFocusTrapHandler tgH \<lparr>keyCode = TAB_KEYCODE, shiftKey = True, target = C\<rparr>
              = ([PreventDefault, Focus B], None)
          \<and> (\<forall>s. \<not> (s \<and> tc = A) \<and> \<not> (\<not> s \<and> tc = B)
                \<longrightarrow> getFocusTrapHandler ttH \<lparr>keyCode = TAB_KEYCODE, shiftKey = s, target = tc\<rparr>
                      = ([PreventDefault, Focus A], None))"
    using s l by blast
next
  assume h: "getEdgeFocusables I None tg (Some True) = Inr ge
        \<and> (tg = None \<or> truthyFlag dmi
            \<or> EdgeFocusables.start ge = None \<or> EdgeFocusables.end' ge = None)"
  define ttA where "ttA = \<lparr>start = Some A, end' = Some B,
           beforeStart = None, afterEnd = None, lightningRod = Some tc\<rparr>"
  define i where "i = max (created ls) (identityBound (listeners ls))"
  define ls' where "ls' = \<lparr>listeners = listeners ls @ [(tc, ''keydown'', (i, FocusTrapHandler ttA))],
             created = Suc i\<rparr>"
  have s: "setFocusTrap I (Some tc) tg dmi ls
           = Inr (Some (setFocusTrapCleanup tg None (Some tc) (i, FocusTrapHandler ttA)), ls')"
    using setFocusTrap_unchained [OF tt, of tg ge dmi ttA i ls] h
    by (simp add: ttA_def i_def ls'_def)
  have l: "set (listeners ls') = set (listeners ls)
                \<union> {(tc, ''keydown'', (i, FocusTrapHandler ttA))}"
    by (auto simp: ls'_def)
  have "getFocusTrapHandler ttA \<lparr>keyCode = TAB_KEYCODE, shiftKey = False, target = B\<rparr>
              = ([PreventDefault, Focus A], None)"
    by (rule handler_end_wrap) (simp_all add: ttA_def)
  moreover have "getFocusTrapHandler ttA \<lparr>keyCode = TAB_KEYCODE, shiftKey = True, target = A\<rparr>
              = ([PreventDefault, Focus B], None)"
    by (rule handler_start_wrap) (simp_all add: ttA_def)
  moreover have "\<forall>s. \<not> (s \<and> tc = A) \<and> \<not> (\<not> s \<and> tc = B)
                \<longrightarrow> getFocusTrapHandler ttA \<lparr>keyCode = TAB_KEYCODE, shiftKey = s, target = tc\<rparr>
                      = ([PreventDefault, Focus A], None)"
    by (intro allI impI, rule handler_rod) (auto simp: ttA_def)
  ultimately show "\<exists>cl ls' ttH j.
            setFocusTrap I (Some tc) tg dmi ls = Inr (Some cl, ls')
          \<and> set (listeners ls') = set (listeners ls)
                \<union> {(tc, ''keydown'', (j, FocusTrapHandler ttH))}
          \<and> getFocusTrapHandler ttH \<lparr>keyCode = TAB_KEYCODE, shiftKey = False, target = B\<rparr>
              = ([PreventDefault, Focus A], None)
          \<and> getFocusTrapHandler ttH \<lparr>keyCode = TAB_KEYCODE, shiftKey = True, target = A\<rparr>
              = ([PreventDefault, Focus B], None)
          \<and> (\<forall>s. \<not> (s \<and> tc = A) \<and> \<not> (\<not> s \<and> tc = B)
                \<longrightarrow> getFocusTrapHandler ttH \<lparr>keyCode = TAB_KEYCODE, shiftKey = s, target = tc\<rparr>
                      = ([PreventDefault, Focus A], None))"
    using s l by blast
qed

text \<open>
  On the page: the container 1 with the edges 2 and 3, chained to the target 4 with
  the edges 5 and 6, and the same container with no target.
\<close>

theorem setFocusTrap_ring_witness:
  "(\<exists>cl ls' ttH tgH i j.
       setFocusTrap page (Some 1) (Some 4) None pageStart = Inr (Some cl, ls')
     \<and> set (listeners ls') = {(4, ''keydown'', (i, FocusTrapHandler tgH)),
                               (1, ''keydown'', (j, FocusTrapHandler ttH))}
     \<and> getFocusTrapHandler ttH \<lparr>keyCode = TAB_KEYCODE, shiftKey = True, target = 2\<rparr>
         = ([PreventDefault, Focus 6], None)
     \<and> getFocusTrapHandler tgH \<lparr>keyCode = TAB_KEYCODE, shiftKey = False, target = 6\<rparr>
         = ([PreventDefault, Focus 2], None)
     \<and> getFocusTrapHandler ttH \<lparr>keyCode = TAB_KEYCODE, shiftKey = False, target = 3\<rparr>
         = ([PreventDefault, Focus 5], None)
     \<and> getFocusTrapHandler tgH \<lparr>keyCode = TAB_KEYCODE, shiftKey = True, target = 5\<rparr>
         = ([PreventDefault, Focus 3], None)
     \<and> (\<forall>s. getFocusTrapHandler ttH \<lparr>keyCode = TAB_KEYCODE, shiftKey = s, target = 1\<rparr>
         = ([PreventDefault, Focus 2], None)))
   \<and> (\<exists>cl ls' ttH j.
       setFocusTrap page (Some 1) None None pageStart = Inr (Some cl, ls')
     \<and> set (listeners ls') = {(1, ''keydown'', (j, FocusTrapHandler ttH))}
     \<and> getFocusTrapHandler ttH \<lparr>keyCode = TAB_KEYCODE, shiftKey = False, target = 3\<rparr>
         = ([PreventDefault, Focus 2], None)
     \<and> getFocusTrapHandler ttH \<lparr>keyCode = TAB_KEYCODE, shiftKey = True, target = 2\<rparr>
         = ([PreventDefault, Focus 3], None)
     \<and> (\<forall>s. getFocusTrapHandler ttH \<lparr>keyCode = TAB_KEYCODE, shiftKey = s, target = 1\<rparr>
         = ([PreventDefault, Focus 2], None)))"
proof -
  have e: "getEdgeFocusables page (Some 1) (Some 1) None
      = Inr \<lparr>EdgeFocusables.start = Some 2, end' = Some 3\<rparr>"
    "getEdgeFocusables page None (Some 4) (Some True)
      = Inr \<lparr>EdgeFocusables.start = Some 5, end' = Some 6\<rparr>"
    "getEdgeFocusables page None None (Some True)
      = Inr \<lparr>EdgeFocusables.start = None, end' = None\<rparr>"
    by (simp_all add: page_def)
  have n: "\<not> truthyFlag None" "(1::nat) \<noteq> 2" "(1::nat) \<noteq> 3" "set (listeners pageStart) = {}"
    by (simp_all add: truthyFlag_def pageStart_def)
  note r = setFocusTrap_ring [OF e(1), of 4 5 6 None pageStart None
        "\<lparr>EdgeFocusables.start = None, end' = None\<rparr>"]
  from r e(2) n have 1: "\<exists>cl ls' ttH tgH i j.
       setFocusTrap page (Some 1) (Some 4) None pageStart = Inr (Some cl, ls')
     \<and> set (listeners ls') = {(4, ''keydown'', (i, FocusTrapHandler tgH)),
                               (1, ''keydown'', (j, FocusTrapHandler ttH))}
     \<and> getFocusTrapHandler ttH \<lparr>keyCode = TAB_KEYCODE, shiftKey = True, target = 2\<rparr>
         = ([PreventDefault, Focus 6], None)
     \<and> getFocusTrapHandler tgH \<lparr>keyCode = TAB_KEYCODE, shiftKey = False, target = 6\<rparr>
         = ([PreventDefault, Focus 2], None)
     \<and> getFocusTrapHandler ttH \<lparr>keyCode = TAB_KEYCODE, shiftKey = False, target = 3\<rparr>
         = ([PreventDefault, Focus 5], None)
     \<and> getFocusTrapHandler tgH \<lparr>keyCode = TAB_KEYCODE, shiftKey = True, target = 5\<rparr>
         = ([PreventDefault, Focus 3], None)
     \<and> (\<forall>s. getFocusTrapHandler ttH \<lparr>keyCode = TAB_KEYCODE, shiftKey = s, target = 1\<rparr>
         = ([PreventDefault, Focus 2], None))"
    by simp
  from r e(3) n have 2: "\<exists>cl ls' ttH j.
       setFocusTrap page (Some 1) None None pageStart = Inr (Some cl, ls')
     \<and> set (listeners ls') = {(1, ''keydown'', (j, FocusTrapHandler ttH))}
     \<and> getFocusTrapHandler ttH \<lparr>keyCode = TAB_KEYCODE, shiftKey = False, target = 3\<rparr>
         = ([PreventDefault, Focus 2], None)
     \<and> getFocusTrapHandler ttH \<lparr>keyCode = TAB_KEYCODE, shiftKey = True, target = 2\<rparr>
         = ([PreventDefault, Focus 3], None)
     \<and> (\<forall>s. getFocusTrapHandler ttH \<lparr>keyCode = TAB_KEYCODE, shiftKey = s, target = 1\<rparr>
         = ([PreventDefault, Focus 2], None))"
    by simp
  from 1 2 show ?thesis by (rule conjI)
qed

text \<open>
  Claim C7: \<open>setFocusTrap\<close> registers a closure of its own on the tooltip container, and
  one on the target exactly when the regions are chained; the closure it returns never
  throws, in whatever state of the page it is called, and takes out the registrations
  of these closures and of no other: the tooltip's, and the target's exactly when it
  was registered. When a target was given and the regions were not chained (mask
  interaction disabled, or no focusable element in the target), it takes out the
  tooltip's registration and nothing else. Called in the state that \<open>setFocusTrap\<close>
  left, it gives back the table as it was before.
\<close>

theorem setFocusTrap_cleanup_releases:
  assumes tt: "getEdgeFocusables I (Some tc) (Some tc) None = Inr te"
    and tg: "getEdgeFocusables I None tg (Some True) = Inr ge"
  shows "\<exists>cl s' ttH.
      setFocusTrap I (Some tc) tg dmi s = Inr (Some cl, s')
    \<and> (tg \<noteq> None \<and> \<not> truthyFlag dmi
          \<and> EdgeFocusables.start ge \<noteq> None \<and> EdgeFocusables.end' ge \<noteq> None
        \<longrightarrow> (\<exists>t tgH. tg = Some t
              \<and> listeners s' = listeners s @ [(t, ''keydown'', tgH), (tc, ''keydown'', ttH)]
              \<and> (\<forall>s0. cl s0
                    = Inr (s0\<lparr>listeners := [r \<leftarrow> listeners s0.
                          \<not> registers t ''keydown'' tgH r \<and> \<not> registers tc ''keydown'' ttH r]\<rparr>))))
    \<and> (tg = None \<or> truthyFlag dmi
          \<or> EdgeFocusables.start ge = None \<or> EdgeFocusables.end' ge = None
        \<longrightarrow> listeners s' = listeners s @ [(tc, ''keydown'', ttH)]
            \<and> (\<forall>s0. cl s0
                  = Inr (s0\<lparr>listeners := [r \<leftarrow> listeners s0. \<not> registers tc ''keydown'' ttH r]\<rparr>)))
    \<and> cl s' = Inr (s'\<lparr>listeners := listeners s\<rparr>)"
proof (cases "tg \<noteq> None \<and> \<not> truthyFlag dmi
          \<and> EdgeFocusables.start ge \<noteq> None \<and> EdgeFocusables.end' ge \<noteq> None")
  case True
  then obtain t where t: "tg = Some t" by auto
  define i where "i = max (created s) (identityBound (listeners s))"
  define tgH where "tgH = (i, FocusTrapHandler \<lparr>start = EdgeFocusables.start ge,
           end' = EdgeFocusables.end' ge, beforeStart = EdgeFocusables.end' te,
           afterEnd = EdgeFocusables.start te, lightningRod = None\<rparr>)"
  define ttH where "ttH = (Suc i, FocusTrapHandler \<lparr>start = EdgeFocusables.start te,
           end' = EdgeFocusables.end' te, beforeStart = EdgeFocusables.end' ge,
           afterEnd = EdgeFocusables.start ge, lightningRod = Some tc\<rparr>)"
  define s' where "s' = \<lparr>listeners = listeners s @ [(t, ''keydown'', tgH), (tc, ''keydown'', ttH)],
             created = Suc (Suc i)\<rparr>"
  have b: "identityBound (listeners s) \<le> i" "identityBound (listeners s) \<le> Suc i"
    by (simp_all add: i_def)
  have r: "setFocusTrap I (Some tc) (Some t) dmi s
       = Inr (Some (setFocusTrapCleanup (Some t) (Some tgH) (Some tc) ttH), s')"
    using setFocusTrap_chained [OF tt tg [unfolded t], of dmi _ _ i s] True
    by (simp add: tgH_def ttH_def s'_def i_def)
  have "[r \<leftarrow> listeners s'. \<not> registers t ''keydown'' tgH r \<and> \<not> registers tc ''keydown'' ttH r]
      = listeners s"
    using filter_old2 [OF b, of t "''keydown''" _ tc "''keydown''"]
    by (simp add: s'_def tgH_def ttH_def registers_def)
  then have e: "setFocusTrapCleanup (Some t) (Some tgH) (Some tc) ttH s'
      = Inr (s'\<lparr>listeners := listeners s\<rparr>)"
    by (simp add: cleanup_chained)
  have l: "listeners s' = listeners s @ [(t, ''keydown'', tgH), (tc, ''keydown'', ttH)]"
    by (simp add: s'_def)
  show ?thesis
    unfolding t
    apply (rule exI [of _ "setFocusTrapCleanup (Some t) (Some tgH) (Some tc) ttH"])
    apply (rule exI [of _ s'])
    apply (rule exI [of _ ttH])
    apply (insert True)
    apply (simp only: r e l)
    apply (simp add: cleanup_chained)
    done
next
  case False
  then have u: "tg = None \<or> truthyFlag dmi
          \<or> EdgeFocusables.start ge = None \<or> EdgeFocusables.end' ge = None"
    by blast
  define i where "i = max (created s) (identityBound (listeners s))"
  define ttH where "ttH = (i, FocusTrapHandler \<lparr>start = EdgeFocusables.start te,
           end' = EdgeFocusables.end' te, beforeStart = None, afterEnd = None,
           lightningRod = Some tc\<rparr>)"
  define s' where "s' = \<lparr>listeners = listeners s @ [(tc, ''keydown'', ttH)], created = Suc i\<rparr>"
  have b: "identityBound (listeners s) \<le> i"
    by (simp_all add: i_def)
  have r: "setFocusTrap I (Some tc) tg dmi s
       = Inr (Some (setFocusTrapCleanup tg None (Some tc) ttH), s')"
    using setFocusTrap_unchained [OF tt tg u, of _ i s]
    by (simp add: ttH_def s'_def i_def)
  have "[r \<leftarrow> listeners s'. \<not> registers tc ''keydown'' ttH r] = listeners s"
    using filter_old [OF b, of tc "''keydown''"]
    by (simp add: s'_def ttH_def registers_def)
  then have e: "setFocusTrapCleanup tg None (Some tc) ttH s' = Inr (s'\<lparr>listeners := listeners s\<rparr>)"
    by (simp add: cleanup_unchained)
  have l: "listeners s' = listeners s @ [(tc, ''keydown'', ttH)]"
    by (simp add: s'_def)
  show ?thesis
    apply (rule exI [of _ "setFocusTrapCleanup tg None (Some tc) ttH"])
    apply (rule exI [of _ s'])
    apply (rule exI [of _ ttH])
    apply (insert False)
    apply (simp only: r e l)
    apply (simp add: cleanup_unchained)
    done
qed

text \<open>
  On the page: a target with mask interaction disabled; the same target chained; and
  the trap set twice on the one container, where the cleanup of the first trap leaves
  the listener of the second and the cleanup of the second leaves the listener of the
  first.
\<close>

theorem setFocusTrap_cleanup_releases_witness:
  "(\<exists>cl s' ttH.
       setFocusTrap page (Some 1) (Some 4) (Some True) pageStart = Inr (Some cl, s')
     \<and> listeners s' = [(1, ''keydown'', ttH)]
     \<and> (\<forall>s0. cl s0 = Inr (s0\<lparr>listeners := [r \<leftarrow> listeners s0. \<not> registers 1 ''keydown'' ttH r]\<rparr>))
     \<and> cl s' = Inr (s'\<lparr>listeners := []\<rparr>))
   \<and> (\<exists>cl s' ttH tgH.
       setFocusTrap page (Some 1) (Some 4) None pageStart = Inr (Some cl, s')
     \<and> listeners s' = [(4, ''keydown'', tgH), (1, ''keydown'', ttH)]
     \<and> (\<forall>s0. cl s0 = Inr (s0\<lparr>listeners := [r \<leftarrow> listeners s0.
           \<not> registers 4 ''keydown'' tgH r \<and> \<not> registers 1 ''keydown'' ttH r]\<rparr>))
     \<and> cl s' = Inr (s'\<lparr>listeners := []\<rparr>))
   \<and> (\<exists>cl s' ttH cl2 s2 ttH2.
       setFocusTrap page (Some 1) None None pageStart = Inr (Some cl, s')
     \<and> setFocusTrap page (Some 1) None None s' = Inr (Some cl2, s2)
     \<and> listeners s2 = [(1, ''keydown'', ttH), (1, ''keydown'', ttH2)]
     \<and> cl s2 = Inr (s2\<lparr>listeners := [(1, ''keydown'', ttH2)]\<rparr>)
     \<and> cl2 s2 = Inr (s2\<lparr>listeners := [(1, ''keydown'', ttH)]\<rparr>))"
proof -
  have e: "getEdgeFocusables page (Some 1) (Some 1) None
      = Inr \<lparr>EdgeFocusables.start = Some 2, end' = Some 3\<rparr>"
    "getEdgeFocusables page None (Some 4) (Some True)
      = Inr \<lparr>EdgeFocusables.start = Some 5, end' = Some 6\<rparr>"
    by (simp_all add: page_def)
  have e': "getEdgeFocusables page None None (Some True)
      = Inr \<lparr>EdgeFocusables.start = None, end' = None\<rparr>"
    by (simp add: page_def)
  have n: "\<not> truthyFlag None" "truthyFlag (Some True)" "listeners pageStart = []"
    by (simp_all add: truthyFlag_def pageStart_def)
  have 1: "\<exists>cl s' ttH.
       setFocusTrap page (Some 1) (Some 4) (Some True) pageStart = Inr (Some cl, s')
     \<and> listeners s' = [(1, ''keydown'', ttH)]
     \<and> (\<forall>s0. cl s0 = Inr (s0\<lparr>listeners := [r \<leftarrow> listeners s0. \<not> registers 1 ''keydown'' ttH r]\<rparr>))
     \<and> cl s' = Inr (s'\<lparr>listeners := []\<rparr>)"
    using setFocusTrap_cleanup_releases [OF e, of "Some True" pageStart] n
    by simp
  have 2: "\<exists>cl s' ttH tgH.
       setFocusTrap page (Some 1) (Some 4) None pageStart = Inr (Some cl, s')
     \<and> listeners s' = [(4, ''keydown'', tgH), (1, ''keydown'', ttH)]
     \<and> (\<forall>s0. cl s0 = Inr (s0\<lparr>listeners := [r \<leftarrow> listeners s0.
           \<not> registers 4 ''keydown'' tgH r \<and> \<not> registers 1 ''keydown'' ttH r]\<rparr>))
     \<and> cl s' = Inr (s'\<lparr>listeners := []\<rparr>)"
    using setFocusTrap_cleanup_releases [OF e, of None pageStart] n
    by simp blast
  obtain cl s' ttH where a:
      "setFocusTrap page (Some 1) None None pageStart = Inr (Some cl, s')"
      "listeners s' = [(1, ''keydown'', ttH)]"
      "\<forall>s0. cl s0 = Inr (s0\<lparr>listeners := [r \<leftarrow> listeners s0. \<not> registers 1 ''keydown'' ttH r]\<rparr>)"
    using setFocusTrap_cleanup_releases [OF e(1) e', of None pageStart] n
    by auto
  obtain cl2 s2 ttH2 where b:
      "setFocusTrap page (Some 1) None None s' = Inr (Some cl2, s2)"
      "listeners s2 = [(1, ''keydown'', ttH), (1, ''keydown'', ttH2)]"
      "\<forall>s0. cl2 s0 = Inr (s0\<lparr>listeners := [r \<leftarrow> listeners s0. \<not> registers 1 ''keydown'' ttH2 r]\<rparr>)"
      "cl2 s2 = Inr (s2\<lparr>listeners := [(1, ''keydown'', ttH)]\<rparr>)"
    using setFocusTrap_cleanup_releases [OF e(1) e', of None s'] a(2)
    by auto
  have i: "fst ttH \<noteq> fst ttH2"
  proof
    assume "fst ttH = fst ttH2"
    then have "cl2 s2 = Inr (s2\<lparr>listeners := []\<rparr>)"
      using b(2,3) by (simp add: registers_def)
    with b(4) have "s2\<lparr>listeners := [(1, ''keydown'', ttH)]\<rparr> = s2\<lparr>listeners := []\<rparr>"
      by simp
    then have "listeners (s2\<lparr>listeners := [(1, ''keydown'', ttH)]\<rparr>) = listeners (s2\<lparr>listeners := []\<rparr>)"
      by (rule arg_cong)
    then show False by simp
  qed
  have "cl s2 = Inr (s2\<lparr>listeners := [(1, ''keydown'', ttH2)]\<rparr>)"
    using a(3) b(2) i by (simp add: registers_def)
  with a b have 3: "\<exists>cl s' ttH cl2 s2 ttH2.
       setFocusTrap page (Some 1) None None pageStart = Inr (Some cl, s')
     \<and> setFocusTrap page (Some 1) None None s' = Inr (Some cl2, s2)
     \<and> listeners s2 = [(1, ''keydown'', ttH), (1, ''keydown'', ttH2)]
     \<and> cl s2 = Inr (s2\<lparr>listeners := [(1, ''keydown'', ttH2)]\<rparr>)
     \<and> cl2 s2 = Inr (s2\<lparr>listeners := [(1, ''keydown'', ttH)]\<rparr>)"
    by blast
  from 1 2 3 show ?thesis by blast
qed

text \<open>
  Claim C9: a keydown whose key is not Tab, and a Tab keydown whose event target is
  none of the start, the end and the lightning rod of a trap, makes the handler of
  that trap do nothing: no focus change, no \<open>preventDefault\<close>. So for the handlers that
  \<open>setFocusTrap\<close> registers: delivered at any element afterwards, such an event runs
  as it ran before, but for runs that do nothing.
\<close>

theorem focus_trap_passes_through:
  "(keyCode e \<noteq> TAB_KEYCODE
      \<or> (Some (KeyboardEvent.target e) \<noteq> FocusTrapArgs.start args
         \<and> Some (KeyboardEvent.target e) \<noteq> FocusTrapArgs.end' args
         \<and> Some (KeyboardEvent.target e) \<noteq> lightningRod args)
    \<longrightarrow> getFocusTrapHandler args e = ([], None))
   \<and> (getEdgeFocusables I tc tc None = Inr te
      \<and> getEdgeFocusables I None tg (Some True) = Inr ge
      \<and> setFocusTrap I tc tg dmi ls = Inr (r, ls')
      \<and> (keyCode e \<noteq> TAB_KEYCODE
          \<or> Some (KeyboardEvent.target e) \<notin> {EdgeFocusables.start te, EdgeFocusables.end' te, tc,
                EdgeFocusables.start ge, EdgeFocusables.end' ge})
    \<longrightarrow> set (keydown ls' el e) \<subseteq> set (keydown ls el e) \<union> {([], None)})"
proof (intro conjI impI)
  assume "keyCode e \<noteq> TAB_KEYCODE
      \<or> (Some (KeyboardEvent.target e) \<noteq> FocusTrapArgs.start args
         \<and> Some (KeyboardEvent.target e) \<noteq> FocusTrapArgs.end' args
         \<and> Some (KeyboardEvent.target e) \<noteq> lightningRod args)"
  then show "getFocusTrapHandler args e = ([], None)" by (rule handler_idle)
next
  assume h: "getEdgeFocusables I tc tc None = Inr te
      \<and> getEdgeFocusables I None tg (Some True) = Inr ge
      \<and> setFocusTrap I tc tg dmi ls = Inr (r, ls')
      \<and> (keyCode e \<noteq> TAB_KEYCODE
          \<or> Some (KeyboardEvent.target e) \<notin> {EdgeFocusables.start te, EdgeFocusables.end' te, tc,
                EdgeFocusables.start ge, EdgeFocusables.end' ge})"
  show "set (keydown ls' el e) \<subseteq> set (keydown ls el e) \<union> {([], None)}"
  proof
    fix rn assume "rn \<in> set (keydown ls' el e)"
    then obtain a n where a: "(el, ''keydown'', (n, FocusTrapHandler a)) \<in> set (listeners ls')"
      and rn: "rn = getFocusTrapHandler a e"
      by (auto simp: set_keydown)
    from h a setFocusTrap_listeners [of I tc te tg ge dmi ls r ls' el "''keydown''" n a]
    consider "(el, ''keydown'', (n, FocusTrapHandler a)) \<in> set (listeners ls)"
      | "FocusTrapArgs.start a = EdgeFocusables.start te
        \<and> FocusTrapArgs.end' a = EdgeFocusables.end' te \<and> lightningRod a = tc"
      | "FocusTrapArgs.start a = EdgeFocusables.start ge
        \<and> FocusTrapArgs.end' a = EdgeFocusables.end' ge \<and> lightningRod a = None"
      by blast
    then show "rn \<in> set (keydown ls el e) \<union> {([], None)}"
    proof cases
      case 1
      then show ?thesis using rn by (auto simp: set_keydown)
    next
      case 2
      with h have "getFocusTrapHandler a e = ([], None)"
        by (intro handler_idle) auto
      then show ?thesis using rn by simp
    next
      case 3
      with h have "getFocusTrapHandler a e = ([], None)"
        by (intro handler_idle) auto
      then show ?thesis using rn by simp
    qed
  qed
qed

text \<open>
  On the page: the Enter key, and Tab on the unrelated element 9, at the tooltip's
  handler and at the two elements that carry the trap.
\<close>

theorem focus_trap_passes_through_witness:
  "getFocusTrapHandler \<lparr>start = Some 2, end' = Some 3, beforeStart = Some 6, afterEnd = Some 5,
        lightningRod = Some 1\<rparr> \<lparr>keyCode = 13, shiftKey = False, target = 2\<rparr> = ([], None)
   \<and> getFocusTrapHandler \<lparr>start = Some 2, end' = Some 3, beforeStart = Some 6, afterEnd = Some 5,
        lightningRod = Some 1\<rparr> \<lparr>keyCode = TAB_KEYCODE, shiftKey = True, target = 9\<rparr> = ([], None)
   \<and> set (keydown (snd (projr (setFocusTrap page (Some 1) (Some 4) None pageStart))) 1
        \<lparr>keyCode = 13, shiftKey = False, target = 2\<rparr>) \<subseteq> {([], None)}
   \<and> set (keydown (snd (projr (setFocusTrap page (Some 1) (Some 4) None pageStart))) 4
        \<lparr>keyCode = TAB_KEYCODE, shiftKey = True, target = 9\<rparr>) \<subseteq> {([], None)}"
proof -
  have e: "getEdgeFocusables page (Some 1) (Some 1) None
      = Inr \<lparr>EdgeFocusables.start = Some 2, end' = Some 3\<rparr>"
    "getEdgeFocusables page None (Some 4) (Some True)
      = Inr \<lparr>EdgeFocusables.start = Some 5, end' = Some 6\<rparr>"
    by (simp_all add: page_def)
  have s: "setFocusTrap page (Some 1) (Some 4) None pageStart
      = Inr (fst (projr (setFocusTrap page (Some 1) (Some 4) None pageStart)),
             snd (projr (setFocusTrap page (Some 1) (Some 4) None pageStart)))"
    by (simp add: setFocusTrap_def Let_def page_def truthyFlag_def addEventListener_def
        newClosure_def pageStart_def registers_def)
  have k: "keydown pageStart el ev = []" for el ev
    by (simp add: keydown_def pageStart_def)
  have t: "(13::nat) \<noteq> TAB_KEYCODE"
    by (simp add: TAB_KEYCODE_def)
  have 1: "getFocusTrapHandler \<lparr>start = Some 2, end' = Some 3, beforeStart = Some 6,
        afterEnd = Some 5, lightningRod = Some 1\<rparr> \<lparr>keyCode = 13, shiftKey = False, target = 2\<rparr>
      = ([], None)"
    using t focus_trap_passes_through [of "\<lparr>keyCode = 13, shiftKey = False, target = 2\<rparr>"
        "\<lparr>start = Some 2, end' = Some 3, beforeStart = Some 6, afterEnd = Some 5,
          lightningRod = Some 1\<rparr>" page None "\<lparr>EdgeFocusables.start = None, end' = None\<rparr>"
        None "\<lparr>EdgeFocusables.start = None, end' = None\<rparr>" None pageStart None pageStart 1]
    by simp
  have 2: "getFocusTrapHandler \<lparr>start = Some 2, end' = Some 3, beforeStart = Some 6,
        afterEnd = Some 5, lightningRod = Some 1\<rparr>
        \<lparr>keyCode = TAB_KEYCODE, shiftKey = True, target = 9\<rparr> = ([], None)"
    using focus_trap_passes_through [of
        "\<lparr>keyCode = TAB_KEYCODE, shiftKey = True, target = 9\<rparr>"
        "\<lparr>start = Some 2, end' = Some 3, beforeStart = Some 6, afterEnd = Some 5,
          lightningRod = Some 1\<rparr>" page None "\<lparr>EdgeFocusables.start = None, end' = None\<rparr>"
        None "\<lparr>EdgeFocusables.start = None, end' = None\<rparr>" None pageStart None pageStart 1]
    by simp
  have 3: "set (keydown (snd (projr (setFocusTrap page (Some 1) (Some 4) None pageStart))) 1
        \<lparr>keyCode = 13, shiftKey = False, target = 2\<rparr>) \<subseteq> {([], None)}"
    using t e s k focus_trap_passes_through [of "\<lparr>keyCode = 13, shiftKey = False, target = 2\<rparr>"
        "\<lparr>start = None, end' = None, beforeStart = None, afterEnd = None,
          lightningRod = None\<rparr>" page "Some 1" "\<lparr>EdgeFocusables.start = Some 2, end' = Some 3\<rparr>" "Some 4"
        "\<lparr>EdgeFocusables.start = Some 5, end' = Some 6\<rparr>" None pageStart
        "fst (projr (setFocusTrap page (Some 1) (Some 4) None pageStart))"
        "snd (projr (setFocusTrap page (Some 1) (Some 4) None pageStart))" 1]
    by simp
  have 4: "set (keydown (snd (projr (setFocusTrap page (Some 1) (Some 4) None pageStart))) 4
        \<lparr>keyCode = TAB_KEYCODE, shiftKey = True, target = 9\<rparr>) \<subseteq> {([], None)}"
    using e s k focus_trap_passes_through [of
        "\<lparr>keyCode = TAB_KEYCODE, shiftKey = True, target = 9\<rparr>"
        "\<lparr>start = None, end' = None, beforeStart = None, afterEnd = None,
          lightningRod = None\<rparr>" page "Some 1" "\<lparr>EdgeFocusables.start = Some 2, end' = Some 3\<rparr>" "Some 4"
        "\<lparr>EdgeFocusables.start = Some 5, end' = Some 6\<rparr>" None pageStart
        "fst (projr (setFocusTrap page (Some 1) (Some 4) None pageStart))"
        "snd (projr (setFocusTrap page (Some 1) (Some 4) None pageStart))" 4]
    by simp
  from 1 2 3 4 show ?thesis by blast
qed

section \<open>Claim about absent references\<close>

text \<open>
  Claim C8 says that every entry point that is given an absent DOM reference returns
  a safe default and does not throw. \<open>getCurrentScrollOffset\<close> has no guard: the absent
  root is not the body, and reading its scroll position throws.
\<close>

theorem getCurrentScrollOffset_absent_root_counterexample:
  "getCurrentScrollOffset pageDocument None = Inl TypeError"
  by (simp add: getCurrentScrollOffset_def isSameNode_def)

text \<open>
  Claim C8, as amended: \<open>setFocusTrap\<close> with an absent tooltip container returns no
  cleanup and registers nothing; \<open>setNextOnTargetClick\<close> with an absent target returns
  no cleanup and registers no click handler; \<open>addAppropriateOffset\<close> with an absent root
  or absent coords returns \<open>undefined\<close>; none of them throws. The helpers that these
  guards protect, \<open>getCurrentScrollOffset\<close> and \<open>addScrollOffset\<close>, throw on an absent
  root.
\<close>

theorem absent_reference_defaults:
  "setFocusTrap I None tg dmi ls = Inr (None, ls)
   \<and> setNextOnTargetClick None nxt validateNext ls = Inr (None, ls)
   \<and> addAppropriateOffset I doc None c = Inr None
   \<and> addAppropriateOffset I doc r None = Inr None
   \<and> getCurrentScrollOffset doc None = Inl TypeError
   \<and> addScrollOffset doc None c = Inl TypeError"
  by (simp add: setFocusTrap_def setNextOnTargetClick_def addAppropriateOffset_def
      addScrollOffset_def getCurrentScrollOffset_def isSameNode_def)

end
